theory Spec2Isabelle
  imports Complex_Main
begin

section \<open>Numeric conventions\<close>

text \<open>
  Python and NumPy floats are modelled by the reals: every threshold comparison and every
  weighted sum of the source is read with exact arithmetic. Pixel channels are 8-bit
  unsigned values and are modelled by natural numbers. The built-in \<open>round(x, n)\<close>
  rounds to \<open>n\<close> decimals, ties going to the even neighbour.
\<close>

definition round_half_even :: "real \<Rightarrow> int" where
  "round_half_even y =
     (let f = \<lfloor>y\<rfloor> in
      if y - of_int f < 1 / 2 then f
      else if y - of_int f > 1 / 2 then f + 1
      else if even f then f else f + 1)"

definition py_round :: "real \<Rightarrow> nat \<Rightarrow> real" where
  "py_round x n = of_int (round_half_even (x * 10 ^ n)) / 10 ^ n"

definition np_clip :: "real \<Rightarrow> real \<Rightarrow> real \<Rightarrow> real" where
  "np_clip x lo hi = min (max x lo) hi"

definition np_median :: "nat list \<Rightarrow> real" where
  "np_median xs =
     (let s = sort xs; n = length s in
      if odd n then real (s ! (n div 2))
      else (real (s ! (n div 2 - 1)) + real (s ! (n div 2))) / 2)"

definition np_mean :: "nat list \<Rightarrow> real" where
  "np_mean xs = real (sum_list xs) / real (length xs)"

section \<open>Images, masks and colour bands (talisay\_guard.py)\<close>

text \<open>
  An image is its height, its width and its pixels in row-major order. The two colour
  conversions of OpenCV (\<open>COLOR_BGR2HSV\<close>, \<open>COLOR_BGR2YCrCb\<close>) are library code: a pixel
  carries both converted triples. A mask is the row-major list of its cells, \<open>True\<close> where
  the source tests \<open>mask > 0\<close>.
\<close>

type_synonym triple = "nat \<times> nat \<times> nat"

record pixel =
  hsv :: triple
  ycrcb :: triple

record image =
  height :: nat
  width :: nat
  pixels :: "pixel list"

definition in_range :: "triple \<Rightarrow> triple \<Rightarrow> triple \<Rightarrow> bool" where
  "in_range lower upper p =
     (case lower of (l1, l2, l3) \<Rightarrow> case upper of (u1, u2, u3) \<Rightarrow> case p of (a, b, c) \<Rightarrow>
        l1 \<le> a \<and> a \<le> u1 \<and> l2 \<le> b \<and> b \<le> u2 \<and> l3 \<le> c \<and> c \<le> u3)"

definition hue :: "triple \<Rightarrow> nat" where "hue p = fst p"
definition sat :: "triple \<Rightarrow> nat" where "sat p = fst (snd p)"
definition val :: "triple \<Rightarrow> nat" where "val p = snd (snd p)"

definition talisay_green :: "triple \<Rightarrow> bool" where
  "talisay_green = in_range (30, 35, 35) (80, 255, 245)"

definition talisay_yellow :: "triple \<Rightarrow> bool" where
  "talisay_yellow = in_range (18, 60, 70) (38, 255, 255)"

definition talisay_brown :: "triple \<Rightarrow> bool" where
  "talisay_brown = in_range (5, 30, 20) (26, 220, 200)"

definition siling_green :: "triple \<Rightarrow> bool" where
  "siling_green = in_range (30, 60, 50) (85, 255, 255)"

definition siling_red_1 :: "triple \<Rightarrow> bool" where
  "siling_red_1 = in_range (0, 100, 70) (12, 255, 255)"

definition siling_red_2 :: "triple \<Rightarrow> bool" where
  "siling_red_2 = in_range (160, 100, 70) (180, 255, 255)"

definition skin_hsv :: "triple \<Rightarrow> bool" where
  "skin_hsv = in_range (0, 20, 70) (25, 170, 255)"

definition skin_ycrcb :: "triple \<Rightarrow> bool" where
  "skin_ycrcb = in_range (80, 133, 77) (255, 173, 127)"

definition MIN_GUARD_SCORE :: real where "MIN_GUARD_SCORE = 0.55"
definition MIN_POSITIVE_LAYERS :: nat where "MIN_POSITIVE_LAYERS = 3"
definition MIN_TALISAY_COLOUR_COV :: real where "MIN_TALISAY_COLOUR_COV = 0.30"
definition MAX_SKIN_COVERAGE :: real where "MAX_SKIN_COVERAGE = 0.25"
definition MAX_CAPSICUM_SCORE :: real where "MAX_CAPSICUM_SCORE = 0.45"

text \<open>\<open>np.sum(m > 0)\<close> over a mask computed pixel by pixel, and the selection \<open>hsv[mask > 0]\<close>.\<close>

definition count_where :: "('a \<Rightarrow> bool) \<Rightarrow> 'a list \<Rightarrow> nat" where
  "count_where P xs = length (filter P xs)"

definition masked :: "image \<Rightarrow> bool list \<Rightarrow> triple list" where
  "masked img msk = map (hsv \<circ> fst) (filter snd (zip (pixels img) msk))"

section \<open>The guard layers\<close>

text \<open>
  Quantities that OpenCV computes from the spatial structure of the image (edge maps,
  the Haar cascade, contours, ellipse fits, grey-level statistics, the Laplacian) are
  inputs of the model; every comparison, weight and branch of the guard is modelled.
  Keys of a layer's result dictionary that no caller reads are left out, and a key that
  only some branches set is an option field.
\<close>

record cv_blank =
  global_var :: real
  edge_pixels :: nat
  value_var :: real

record contour =
  c_area :: real
  c_perimeter :: real
  n_points :: nat
  ellipse_minor :: real
  ellipse_major :: real
  rect_w :: nat
  rect_h :: nat
  hull_area :: real

record cv_measurements =
  blank_in :: cv_blank
  faces :: nat
  largest :: "contour option"
  gray_std :: real
  hue_std :: real
  lap_var :: real

subsection \<open>Layer 1: blank image\<close>

record blank_result =
  is_blank :: bool
  blank_reason :: "string option"

definition check_blank_image :: "image \<Rightarrow> cv_blank \<Rightarrow> blank_result" where
  "check_blank_image img m =
     (let total = real (height img * width img) in
      if global_var m < 80 then \<lparr>is_blank = True, blank_reason = Some ''extremely_low_variance''\<rparr>
      else if real (edge_pixels m) / total < 0.005
        then \<lparr>is_blank = True, blank_reason = Some ''no_edges''\<rparr>
      else if real (count_where (\<lambda>p. sat (hsv p) < 15) (pixels img)) / total > 0.90
              \<and> value_var m < 300
        then \<lparr>is_blank = True, blank_reason = Some ''uniform_grey_white''\<rparr>
      else \<lparr>is_blank = False, blank_reason = None\<rparr>)"

subsection \<open>Layer 2: person\<close>

record person_result =
  is_person :: bool
  faces_found :: "nat option"
  skin_coverage :: "real option"
  talisay_coverage :: real
  strong_rescue_coverage :: real
  person_reason :: "string option"

definition combined_skin :: "pixel \<Rightarrow> bool" where
  "combined_skin p = (skin_hsv (hsv p) \<and> skin_ycrcb (ycrcb p))"

definition strong_rescue :: "pixel \<Rightarrow> bool" where
  "strong_rescue p = (talisay_green (hsv p) \<or> talisay_yellow (hsv p))"

definition talisay_brown_nonskin :: "pixel \<Rightarrow> bool" where
  "talisay_brown_nonskin p = (talisay_brown (hsv p) \<and> \<not> combined_skin p)"

definition total_rescue :: "pixel \<Rightarrow> bool" where
  "total_rescue p = (strong_rescue p \<or> talisay_brown_nonskin p)"

definition coverage :: "(pixel \<Rightarrow> bool) \<Rightarrow> image \<Rightarrow> real" where
  "coverage P img = real (count_where P (pixels img)) / real (height img * width img)"

definition check_person :: "image \<Rightarrow> nat \<Rightarrow> person_result" where
  "check_person img n_faces =
     (let skin_cov = coverage combined_skin img;
          strong_rescue_cov = coverage strong_rescue img;
          total_rescue_cov = coverage total_rescue img
      in
      if n_faces > 0 \<and> strong_rescue_cov < 0.05 then
        \<lparr>is_person = True, faces_found = Some n_faces, skin_coverage = None,
         talisay_coverage = total_rescue_cov, strong_rescue_coverage = strong_rescue_cov,
         person_reason = Some ''face_detected''\<rparr>
      else if skin_cov > MAX_SKIN_COVERAGE then
        (if strong_rescue_cov \<ge> 0.08 then
           \<lparr>is_person = False, faces_found = Some n_faces, skin_coverage = Some skin_cov,
            talisay_coverage = total_rescue_cov, strong_rescue_coverage = strong_rescue_cov,
            person_reason = Some ''skin_detected_but_talisay_present''\<rparr>
         else if total_rescue_cov \<ge> 0.20 \<and> skin_cov < 0.45 then
           \<lparr>is_person = False, faces_found = Some n_faces, skin_coverage = Some skin_cov,
            talisay_coverage = total_rescue_cov, strong_rescue_coverage = strong_rescue_cov,
            person_reason = Some ''moderate_skin_with_brown_talisay''\<rparr>
         else
           \<lparr>is_person = True, faces_found = None, skin_coverage = Some skin_cov,
            talisay_coverage = total_rescue_cov, strong_rescue_coverage = strong_rescue_cov,
            person_reason = Some ''excessive_skin_colour''\<rparr>)
      else
        \<lparr>is_person = False, faces_found = Some 0, skin_coverage = Some skin_cov,
         talisay_coverage = total_rescue_cov, strong_rescue_coverage = strong_rescue_cov,
         person_reason = None\<rparr>)"

subsection \<open>Shape measures shared by the capsicum and shape layers\<close>

definition circularity_of :: "contour \<Rightarrow> real" where
  "circularity_of c = 4 * pi * c_area c / (c_perimeter c) ^ 2"

definition rect_aspect :: "contour \<Rightarrow> real" where
  "rect_aspect c =
     real (max (rect_w c) (rect_h c)) / real (max (min (rect_w c) (rect_h c)) 1)"

subsection \<open>Layer 3: capsicum\<close>

record capsicum_result =
  is_capsicum :: bool
  capsicum_score :: real

text \<open>One step \<open>if b: capsicum_score += x\<close> of the running score.\<close>

definition bump :: "bool \<Rightarrow> real \<Rightarrow> real" where
  "bump b x = (if b then x else 0)"

definition check_capsicum :: "image \<Rightarrow> bool list \<Rightarrow> cv_measurements \<Rightarrow> capsicum_result" where
  "check_capsicum img msk m =
     (let fruit_pixels = masked img msk; total_px = length fruit_pixels in
      if total_px < 200 then \<lparr>is_capsicum = False, capsicum_score = 0\<rparr>
      else
        let siling_colour_cov =
              real (count_where siling_green fruit_pixels
                    + count_where siling_red_1 fruit_pixels
                    + count_where siling_red_2 fruit_pixels) / real total_px
        in
        case largest m of
          None \<Rightarrow> \<lparr>is_capsicum = False, capsicum_score = 0\<rparr>
        | Some c \<Rightarrow>
            if c_area c < 100 \<or> c_perimeter c = 0
            then \<lparr>is_capsicum = False, capsicum_score = 0\<rparr>
            else
              let aspect = (if n_points c \<ge> 5
                            then (if ellipse_minor c > 0
                                  then ellipse_major c / ellipse_minor c else 0)
                            else rect_aspect c);
                  circularity = circularity_of c;
                  mean_sat = np_mean (map sat fruit_pixels);
                  score = bump (siling_colour_cov > 0.30) 0.20
                        + bump (aspect > 2.5) 0.25
                        + bump (aspect > 3.5) 0.15
                        + bump (circularity < 0.45) 0.15
                        + bump (gray_std m < 25) 0.10
                        + bump (mean_sat > 120) 0.10
                        + bump (n_points c \<ge> 5
                                \<and> ellipse_minor c / real (max (width img) (height img)) < 0.06)
                            0.15
              in \<lparr>is_capsicum = (score \<ge> MAX_CAPSICUM_SCORE),
                  capsicum_score = py_round score 3\<rparr>)"

subsection \<open>Layer 4: non-Talisay colours\<close>

datatype reject_colour =
  Red_fruit | Orange_fruit | Pink_fruit | Purple_fruit | Blue_object
  | Bright_white_object | Very_dark_object

fun ranges :: "reject_colour \<Rightarrow> (triple \<times> triple) list" where
  "ranges Red_fruit = [((0, 90, 60), (10, 255, 255)), ((160, 90, 60), (180, 255, 255))]"
| "ranges Orange_fruit = [((10, 100, 100), (22, 255, 255))]"
| "ranges Pink_fruit = [((140, 30, 140), (172, 160, 255))]"
| "ranges Purple_fruit = [((120, 40, 40), (158, 255, 255))]"
| "ranges Blue_object = [((95, 50, 50), (130, 255, 255))]"
| "ranges Bright_white_object = [((0, 0, 220), (180, 35, 255))]"
| "ranges Very_dark_object = [((0, 0, 0), (180, 255, 20))]"

fun label :: "reject_colour \<Rightarrow> string" where
  "label Red_fruit = ''red fruit (apple, tomato, red pepper)''"
| "label Orange_fruit = ''orange fruit (orange, tangerine)''"
| "label Pink_fruit = ''pink/magenta fruit (dragon fruit)''"
| "label Purple_fruit = ''purple fruit (grape, mangosteen)''"
| "label Blue_object = ''blue object''"
| "label Bright_white_object = ''white/bright object (paper, screen)''"
| "label Very_dark_object = ''very dark object (dark screen)''"

definition reject_colours :: "reject_colour list" where
  "reject_colours =
     [Red_fruit, Orange_fruit, Pink_fruit, Purple_fruit, Blue_object,
      Bright_white_object, Very_dark_object]"

text \<open>The substring test \<open>sub in s\<close> of Python.\<close>

fun py_in :: "string \<Rightarrow> string \<Rightarrow> bool" where
  "py_in sub [] = (sub = [])"
| "py_in sub (c # cs) = (take (length sub) (c # cs) = sub \<or> py_in sub cs)"

record non_talisay_result =
  is_non_talisay :: bool
  detected_type :: "string option"
  nt_coverage :: "real option"

definition max_reject :: "triple list \<Rightarrow> real \<times> string option" where
  "max_reject px =
     foldl (\<lambda>(max_cov, detected) name.
              let cov = real (sum_list (map (\<lambda>(lower, upper). count_where (in_range lower upper) px)
                                            (ranges name)))
                        / real (length px)
              in if cov > max_cov then (cov, Some (label name)) else (max_cov, detected))
           (0, None) reject_colours"

definition check_non_talisay_colours :: "image \<Rightarrow> bool list \<Rightarrow> non_talisay_result" where
  "check_non_talisay_colours img msk =
     (let px = masked img msk in
      if length px < 100 then \<lparr>is_non_talisay = False, detected_type = None, nt_coverage = None\<rparr>
      else
        let (max_cov, detected) = max_reject px;
            is_bad = (max_cov > 0.30);
            talisay_cov = real (count_where talisay_green px + count_where talisay_yellow px
                                + count_where talisay_brown px) / real (length px);
            is_bad' = (if is_bad \<and> (case detected of None \<Rightarrow> False
                                       | Some d \<Rightarrow> d \<noteq> [] \<and> (py_in ''dark'' d \<or> py_in ''white'' d))
                          \<and> talisay_cov > 0.12
                       then False else is_bad)
        in \<lparr>is_non_talisay = is_bad',
            detected_type = (if is_bad' then detected else None),
            nt_coverage = Some (py_round max_cov 3)\<rparr>)"

subsection \<open>Layer 5: Talisay colour\<close>

record colour_result =
  colour_passes :: bool
  colour_score :: real
  colour_coverage :: real
  dominant_colour :: "string option"
  dominant_coverage :: "real option"

definition dominant_of :: "real \<Rightarrow> real \<Rightarrow> real \<Rightarrow> string" where
  "dominant_of g y b =
     (if g \<ge> y \<and> g \<ge> b then ''green'' else if y \<ge> b then ''yellow'' else ''brown'')"

text \<open>Fraction of the selected pixels inside a band, and the union of the three bands.\<close>

definition band_cov :: "(triple \<Rightarrow> bool) \<Rightarrow> triple list \<Rightarrow> real" where
  "band_cov P px = real (count_where P px) / real (length px)"

definition talisay_any :: "triple \<Rightarrow> bool" where
  "talisay_any p = (talisay_green p \<or> talisay_yellow p \<or> talisay_brown p)"

definition dominant_cov :: "triple list \<Rightarrow> real" where
  "dominant_cov px =
     max (band_cov talisay_green px) (max (band_cov talisay_yellow px) (band_cov talisay_brown px))"

definition check_talisay_colour_px :: "triple list \<Rightarrow> colour_result" where
  "check_talisay_colour_px px =
     (if length px < 200
      then \<lparr>colour_passes = False, colour_score = 0, colour_coverage = 0,
            dominant_colour = None, dominant_coverage = None\<rparr>
      else
        let g_cov = band_cov talisay_green px;
            y_cov = band_cov talisay_yellow px;
            b_cov = band_cov talisay_brown px;
            total_cov = band_cov talisay_any px;
            score = min 1 (total_cov / 0.60);
            passes = (total_cov \<ge> MIN_TALISAY_COLOUR_COV)
        in \<lparr>colour_passes = (if dominant_cov px < 0.15 then False else passes),
            colour_score = py_round (if dominant_cov px < 0.15 then score * 0.5 else score) 3,
            colour_coverage = py_round total_cov 3,
            dominant_colour = Some (dominant_of g_cov y_cov b_cov),
            dominant_coverage = Some (py_round (dominant_cov px) 3)\<rparr>)"


definition check_talisay_colour :: "image \<Rightarrow> bool list \<Rightarrow> colour_result" where
  "check_talisay_colour img msk = check_talisay_colour_px (masked img msk)"

subsection \<open>Layer 6: Talisay shape\<close>

record shape_result =
  shape_passes :: bool
  shape_score :: real
  aspect_ratio :: "real option"
  circularity :: "real option"
  solidity :: "real option"

definition talisay_aspect_range :: "real \<times> real" where "talisay_aspect_range = (1.25, 2.40)"
definition talisay_circularity_range :: "real \<times> real" where
  "talisay_circularity_range = (0.35, 0.80)"
definition talisay_solidity_range :: "real \<times> real" where "talisay_solidity_range = (0.80, 1.0)"

definition aspect_score :: "real \<Rightarrow> real" where
  "aspect_score aspect =
     (let ar_min = fst talisay_aspect_range; ar_max = snd talisay_aspect_range in
      if ar_min \<le> aspect \<and> aspect \<le> ar_max then
        (let mid = (ar_min + ar_max) / 2;
             ar_score = 1 - \<bar>aspect - mid\<bar> / ((ar_max - ar_min) / 2)
         in ar_score * 0.40)
      else if 1.1 \<le> aspect \<and> aspect \<le> 2.6 then 0.15
      else 0)"

definition circularity_score :: "real \<Rightarrow> real" where
  "circularity_score c =
     (if fst talisay_circularity_range \<le> c \<and> c \<le> snd talisay_circularity_range then 0.30
      else if 0.25 \<le> c \<and> c \<le> 0.85 then 0.12
      else 0)"

definition solidity_score :: "real \<Rightarrow> real" where
  "solidity_score s =
     (if s \<ge> fst talisay_solidity_range then 0.30
      else if s \<ge> 0.72 then 0.12
      else 0)"

text \<open>The aspect ratio of the shape layer: from the fitted ellipse, else from the bounding box.\<close>

definition shape_aspect :: "contour \<Rightarrow> real" where
  "shape_aspect c =
     (if n_points c \<ge> 5
      then (if ellipse_minor c > 0 then ellipse_major c / ellipse_minor c else 1.0)
      else rect_aspect c)"

definition check_talisay_shape :: "contour option \<Rightarrow> shape_result" where
  "check_talisay_shape lc =
     (case lc of
        None \<Rightarrow> \<lparr>shape_passes = False, shape_score = 0, aspect_ratio = None,
                  circularity = None, solidity = None\<rparr>
      | Some c \<Rightarrow>
          if c_area c < 300 \<or> c_perimeter c = 0
          then \<lparr>shape_passes = False, shape_score = 0, aspect_ratio = None,
                circularity = None, solidity = None\<rparr>
          else
            let circ = circularity_of c;
                aspect = shape_aspect c;
                sol = (if hull_area c > 0 then c_area c / hull_area c else 0);
                score = aspect_score aspect + circularity_score circ + solidity_score sol;
                passes = (score \<ge> 0.50 \<and> aspect \<ge> 1.1 \<and> aspect \<le> 3.0 \<and> circ \<le> 0.90)
            in \<lparr>shape_passes = passes, shape_score = py_round score 3,
                aspect_ratio = Some (py_round aspect 3),
                circularity = Some (py_round circ 3),
                solidity = Some (py_round sol 3)\<rparr>)"

subsection \<open>Layer 7: surface texture\<close>

record texture_result =
  texture_passes :: bool
  texture_score :: real

definition check_talisay_texture :: "image \<Rightarrow> bool list \<Rightarrow> cv_measurements \<Rightarrow> texture_result" where
  "check_talisay_texture img msk m =
     (let fruit_hsv = masked img msk in
      if length fruit_hsv < 200 then \<lparr>texture_passes = False, texture_score = 0\<rparr>
      else
        let std_val = gray_std m;
            low_sat_high_val =
              real (count_where (\<lambda>p. sat p < 40 \<and> val p > 180) fruit_hsv)
              / real (length fruit_hsv);
            score =
              (if 15 < std_val \<and> std_val < 70 then 0.35
               else if 10 < std_val \<and> std_val < 80 then 0.15 else 0)
              + (if low_sat_high_val < 0.15 then 0.25
                 else if low_sat_high_val < 0.25 then 0.10 else 0)
              + (if hue_std m < 20 then 0.25
                 else if hue_std m < 30 then 0.12 else 0)
              + (if 50 < lap_var m \<and> lap_var m < 3000 then 0.15
                 else if 20 < lap_var m \<and> lap_var m < 5000 then 0.05 else 0)
        in \<lparr>texture_passes = (score \<ge> 0.50), texture_score = py_round score 3\<rparr>)"

section \<open>TalisayGuard.verify\<close>

datatype GuardVerdict =
  ACCEPT | REJECT_BLANK | REJECT_PERSON | REJECT_CAPSICUM | REJECT_NON_TALISAY_FRUIT
  | REJECT_WRONG_SHAPE | REJECT_WRONG_COLOUR | REJECT_WRONG_TEXTURE
  | REJECT_LOW_CONFIDENCE | REJECT_GENERIC

fun verdict_value :: "GuardVerdict \<Rightarrow> string" where
  "verdict_value ACCEPT = ''accept''"
| "verdict_value REJECT_BLANK = ''reject_blank''"
| "verdict_value REJECT_PERSON = ''reject_person''"
| "verdict_value REJECT_CAPSICUM = ''reject_capsicum''"
| "verdict_value REJECT_NON_TALISAY_FRUIT = ''reject_non_talisay_fruit''"
| "verdict_value REJECT_WRONG_SHAPE = ''reject_wrong_shape''"
| "verdict_value REJECT_WRONG_COLOUR = ''reject_wrong_colour''"
| "verdict_value REJECT_WRONG_TEXTURE = ''reject_wrong_texture''"
| "verdict_value REJECT_LOW_CONFIDENCE = ''reject_low_confidence''"
| "verdict_value REJECT_GENERIC = ''reject_generic''"

record layers =
  l_blank :: "blank_result option"
  l_person :: "person_result option"
  l_capsicum :: "capsicum_result option"
  l_non_talisay_colour :: "non_talisay_result option"
  l_talisay_colour :: "colour_result option"
  l_talisay_shape :: "shape_result option"
  l_talisay_texture :: "texture_result option"

definition no_layers :: layers where
  "no_layers = \<lparr>l_blank = None, l_person = None, l_capsicum = None,
                 l_non_talisay_colour = None, l_talisay_colour = None,
                 l_talisay_shape = None, l_talisay_texture = None\<rparr>"

text \<open>
  The verdict dictionary. \<open>verdict\<close> holds the enumeration member whose \<open>value\<close> string the
  source stores; the reason texts are kept without their leading pictograph.
\<close>

record guard_verdict =
  accepted :: bool
  verdict :: GuardVerdict
  score :: real
  verdict_layers :: layers
  reason :: string

definition make_verdict ::
  "bool \<Rightarrow> GuardVerdict \<Rightarrow> real \<Rightarrow> layers \<Rightarrow> string \<Rightarrow> guard_verdict" where
  "make_verdict acc v sc ls r =
     \<lparr>accepted = acc, verdict = v, score = py_round sc 3, verdict_layers = ls, reason = r\<rparr>"

definition fruit_area :: "bool list \<Rightarrow> nat" where
  "fruit_area msk = count_where (\<lambda>b. b) msk"

definition mask_coverage :: "image \<Rightarrow> bool list \<Rightarrow> real" where
  "mask_coverage img msk = real (fruit_area msk) / real (height img * width img)"

definition shape_gate :: "image \<Rightarrow> bool list \<Rightarrow> shape_result \<Rightarrow> bool" where
  "shape_gate img msk sr =
     (let aspect = (case aspect_ratio sr of None \<Rightarrow> 1.0 | Some a \<Rightarrow> a);
          circ = (case circularity sr of None \<Rightarrow> 1.0 | Some c \<Rightarrow> c)
      in mask_coverage img msk < 0.12 \<and> circ > 0.90 \<and> aspect < 1.08)"

definition positive_count :: "colour_result \<Rightarrow> shape_result \<Rightarrow> texture_result \<Rightarrow> nat" where
  "positive_count cr sr tr =
     (if colour_passes cr then 1 else 0) + (if shape_passes sr then 1 else 0)
     + (if texture_passes tr then 1 else 0)"

definition composite :: "colour_result \<Rightarrow> shape_result \<Rightarrow> texture_result \<Rightarrow> real" where
  "composite cr sr tr =
     colour_score cr * 0.45 + shape_score sr * 0.30 + texture_score tr * 0.25"

definition green_sat_vals :: "image \<Rightarrow> nat list" where
  "green_sat_vals img = map (sat \<circ> hsv) (filter (talisay_green \<circ> hsv) (pixels img))"

text \<open>
  The skin-sensitivity block of \<open>verify\<close>: \<open>True\<close> when it sets \<open>accepted = False\<close>.
\<close>

definition skin_veto :: "image \<Rightarrow> person_result \<Rightarrow> nat \<Rightarrow> bool" where
  "skin_veto img person_info pc =
     (let skin_cov = (case skin_coverage person_info of None \<Rightarrow> 0 | Some s \<Rightarrow> s);
          was_rescued = (\<not> is_person person_info \<and> skin_cov > MAX_SKIN_COVERAGE)
      in if was_rescued \<and> pc < MIN_POSITIVE_LAYERS then
           (if skin_cov > 0.45 then True
            else if strong_rescue_coverage person_info > 0.10 then
              (if length (green_sat_vals img) > 100
               then np_median (green_sat_vals img) > 140 else False)
            else False)
         else False)"

definition composite_accepted ::
  "image \<Rightarrow> person_result \<Rightarrow> colour_result \<Rightarrow> shape_result \<Rightarrow> texture_result \<Rightarrow> bool" where
  "composite_accepted img person_info cr sr tr =
     (let pc = positive_count cr sr tr;
          comp = composite cr sr tr;
          acc0 = (pc \<ge> MIN_POSITIVE_LAYERS \<or> (pc \<ge> 2 \<and> comp \<ge> MIN_GUARD_SCORE));
          acc1 = (if comp < 0.35 then False else acc0)
      in if skin_veto img person_info pc then False else acc1)"

text \<open>
  \<open>msk\<close> is the fruit mask in effect, of the image's shape: the one passed to \<open>verify\<close>,
  or the one \<open>_build_fruit_mask\<close> computes when none is passed. The arguments
  \<open>yolo_fruit_info\<close> and \<open>coin_info\<close> are read nowhere else.
\<close>

definition verify :: "image \<Rightarrow> bool list \<Rightarrow> cv_measurements \<Rightarrow> guard_verdict" where
  "verify img msk m =
     (let blank_r = check_blank_image img (blank_in m);
          ls1 = no_layers\<lparr>l_blank := Some blank_r\<rparr>
      in
      if is_blank blank_r then
        make_verdict False REJECT_BLANK 0 ls1
          ''The image appears to be blank or a plain screen. Please provide a clear photo of a Talisay fruit.''
      else
      let person_r = check_person img (faces m);
          ls2 = ls1\<lparr>l_person := Some person_r\<rparr>
      in
      if is_person person_r then
        make_verdict False REJECT_PERSON 0 ls2
          ''A person or face was detected in the image. Please provide an image that contains a Talisay fruit, not a person.''
      else if fruit_area msk < 500 then
        make_verdict False REJECT_GENERIC 0 ls2
          ''No significant object detected in the image. Please take a clear, close-up photo of a Talisay fruit.''
      else
      let capsicum_r = check_capsicum img msk m;
          ls3 = ls2\<lparr>l_capsicum := Some capsicum_r\<rparr>
      in
      if is_capsicum capsicum_r then
        make_verdict False REJECT_CAPSICUM 0 ls3
          ''This appears to be a Capsicum (Siling/Chili pepper), not a Talisay fruit. Talisay fruits are wider, almond-shaped drupes, not elongated peppers.''
      else
      let non_talisay_r = check_non_talisay_colours img msk;
          ls4 = ls3\<lparr>l_non_talisay_colour := Some non_talisay_r\<rparr>
      in
      if is_non_talisay non_talisay_r then
        make_verdict False REJECT_NON_TALISAY_FRUIT 0 ls4
          (''This appears to be a '' @ (case detected_type non_talisay_r of None \<Rightarrow> ''None'' | Some d \<Rightarrow> d)
           @ '' item, not a Talisay fruit. Talisay fruits are ONLY green, yellow, or brown (with specific Talisay colour profiles).'')
      else
      let colour_r = check_talisay_colour img msk;
          shape_r = check_talisay_shape (largest m);
          ls6 = ls4\<lparr>l_talisay_colour := Some colour_r, l_talisay_shape := Some shape_r\<rparr>
      in
      if shape_gate img msk shape_r then
        make_verdict False REJECT_WRONG_SHAPE 0 ls6
          ''The detected object is too round to be a Talisay fruit. Talisay fruits are almond-shaped drupes, not perfectly round objects.''
      else
      let texture_r = check_talisay_texture img msk m;
          ls7 = ls6\<lparr>l_talisay_texture := Some texture_r\<rparr>;
          comp = composite colour_r shape_r texture_r
      in
      if composite_accepted img person_r colour_r shape_r texture_r then
        make_verdict True ACCEPT comp ls7 ''Talisay fruit verified successfully.''
      else if \<not> colour_passes colour_r then
        make_verdict False REJECT_WRONG_COLOUR comp ls7
          ''The colours in this image don't match Talisay fruit. Talisay fruits are green (immature), yellow (mature), or brown (ripe) with specific colour profiles.''
      else if \<not> shape_passes shape_r then
        make_verdict False REJECT_WRONG_SHAPE comp ls7
          ''The shape doesn't match a Talisay fruit. Talisay fruits are almond-shaped drupes with an aspect ratio of ~1.3-2.4. They are NOT perfectly round, or extremely elongated.''
      else
        make_verdict False REJECT_LOW_CONFIDENCE comp ls7
          ''The image doesn't confidently match a Talisay fruit. Please provide a clearer photo of a Talisay (Terminalia catappa) fruit with good lighting.'')"

text \<open>
  The image reaches the shape gate: none of the five earlier exits returned. It reaches
  the composite decision: the shape gate did not return either.
\<close>

definition reaches_shape_gate :: "image \<Rightarrow> bool list \<Rightarrow> cv_measurements \<Rightarrow> bool" where
  "reaches_shape_gate img msk m =
     (\<not> is_blank (check_blank_image img (blank_in m))
      \<and> \<not> is_person (check_person img (faces m))
      \<and> \<not> fruit_area msk < 500
      \<and> \<not> is_capsicum (check_capsicum img msk m)
      \<and> \<not> is_non_talisay (check_non_talisay_colours img msk))"

definition reaches_composite :: "image \<Rightarrow> bool list \<Rightarrow> cv_measurements \<Rightarrow> bool" where
  "reaches_composite img msk m =
     (reaches_shape_gate img msk m
      \<and> \<not> shape_gate img msk (check_talisay_shape (largest m)))"

section \<open>Reference objects and coin detection (dimension\_estimator.py)\<close>

text \<open>
  The table \<open>REFERENCE_OBJECTS\<close>. Only coins have a \<open>diameter\<close>; the card, the paper and
  the ArUco marker have other keys. The peso sign of the display names is written \<open>P\<close>.
\<close>

record reference_info =
  diameter :: "real option"
  marker_size :: "real option"
  ref_name :: string

definition coin :: "real \<Rightarrow> string \<Rightarrow> reference_info" where
  "coin d n = \<lparr>diameter = Some d, marker_size = None, ref_name = n\<rparr>"

definition REFERENCE_OBJECTS :: "(string \<times> reference_info) list" where
  "REFERENCE_OBJECTS =
     [(''peso_1_new'', coin 2.0 ''P1 Coin (Silver, New)''),
      (''peso_5_new'', coin 2.4 ''P5 Coin (Silver, New)''),
      (''peso_10_new'', coin 2.45 ''P10 Coin (Silver/Gold, New)''),
      (''peso_20_new'', coin 2.8 ''P20 Coin (Silver/Gold, New)''),
      (''peso_1_old'', coin 2.4 ''P1 Coin (Brass, Old)''),
      (''peso_5_old'', coin 2.5 ''P5 Coin (Brass, Old)''),
      (''peso_10_old'', coin 2.7 ''P10 Coin (Bimetallic, Old)''),
      (''peso_1'', coin 2.0 ''P1 Coin (New Silver)''),
      (''peso_5'', coin 2.4 ''P5 Coin (New Silver)''),
      (''peso_10'', coin 2.45 ''P10 Coin (New)''),
      (''peso_20'', coin 2.8 ''P20 Coin (New)''),
      (''credit_card'', \<lparr>diameter = None, marker_size = None, ref_name = ''Credit/ID Card''\<rparr>),
      (''a4_paper'', \<lparr>diameter = None, marker_size = None, ref_name = ''A4 Paper''\<rparr>),
      (''aruco_4x4'', \<lparr>diameter = None, marker_size = Some 5.0, ref_name = ''ArUco Marker 5cm''\<rparr>)]"

text \<open>\<open>DimensionEstimator.__init__\<close>: an unknown reference type falls back to \<open>peso_5\<close>.\<close>

definition reference_info_of :: "string \<Rightarrow> reference_info" where
  "reference_info_of reference_type =
     (case map_of REFERENCE_OBJECTS reference_type of
        Some info \<Rightarrow> info
      | None \<Rightarrow> coin 2.4 ''P5 Coin (New Silver)'')"

text \<open>\<open>int(x)\<close> on a float truncates towards zero.\<close>

definition py_int :: "real \<Rightarrow> int" where
  "py_int x = (if x \<ge> 0 then \<lfloor>x\<rfloor> else \<lceil>x\<rceil>)"

type_synonym circle = "real \<times> real \<times> real"
type_synonym icircle = "int \<times> int \<times> int"

subsection \<open>The thorough search: \_detect\_coin\_single\_pass\<close>

text \<open>
  The circles found by the six \<open>HoughCircles\<close> calls and the statistics that the source
  reads off the image around one integer circle are inputs: \<open>stats\<close> maps a circle to them.
\<close>

record circle_stats =
  inner_count :: nat
  mean_hue :: real
  mean_sat :: real
  mean_val :: real
  std_gray :: real
  inner_mean :: real
  sector_hits :: nat
  ring_area :: nat
  edge_on_ring :: nat
  outer_count :: nat
  outer_mean :: real

definition keep_circle :: "real \<Rightarrow> circle list \<Rightarrow> circle \<Rightarrow> bool" where
  "keep_circle dedup_thr unique c =
     (case find (\<lambda>u. sqrt ((fst c - fst u)\<^sup>2 + (fst (snd c) - fst (snd u))\<^sup>2) < dedup_thr) unique of
        None \<Rightarrow> True
      | Some u \<Rightarrow>
          \<not> (max (snd (snd c)) (snd (snd u)) / max 1 (min (snd (snd c)) (snd (snd u))) < 1.25))"

definition dedup :: "real \<Rightarrow> circle list \<Rightarrow> circle list" where
  "dedup dedup_thr all_circles =
     foldl (\<lambda>unique c. if keep_circle dedup_thr unique c then unique @ [c] else unique)
           [] all_circles"

definition touches_border :: "int \<Rightarrow> int \<Rightarrow> icircle \<Rightarrow> bool" where
  "touches_border w h c =
     (case c of (x, y, r) \<Rightarrow>
        let margin = max 5 (r div 10)
        in x - r < margin \<or> x + r \<ge> w - margin \<or> y - r < margin \<or> y + r \<ge> h - margin)"

definition pos_x :: "int \<Rightarrow> icircle \<Rightarrow> real" where
  "pos_x w c = real_of_int (fst c) / real_of_int w"

definition size_ratio :: "int \<Rightarrow> icircle \<Rightarrow> real" where
  "size_ratio w c = real_of_int (2 * snd (snd c)) / real_of_int w"

definition hard_rejected :: "circle_stats \<Rightarrow> bool" where
  "hard_rejected s =
     ((35 < mean_hue s \<and> mean_hue s < 85 \<and> mean_sat s > 35)
      \<or> std_gray s > 55
      \<or> mean_val s > 240 \<or> mean_val s < 15)"

definition rim_continuity :: "circle_stats \<Rightarrow> real" where
  "rim_continuity s = real (sector_hits s) / 36"

definition coin_score :: "int \<Rightarrow> icircle \<Rightarrow> circle_stats \<Rightarrow> real" where
  "coin_score w c s =
     (let rc = rim_continuity s;
          s1 = (if rc > 0.85 then 0.30 else if rc > 0.75 then 0.26 else if rc > 0.65 then 0.21
                else if rc > 0.50 then 0.15 else if rc > 0.35 then 0.08 else 0.02);
          metallic_ratio = mean_val s / (mean_sat s + 1);
          s2 = (if metallic_ratio > 4.0 then 0.18 else if metallic_ratio > 3.0 then 0.15
                else if metallic_ratio > 2.5 then 0.12 else if metallic_ratio > 2.0 then 0.09
                else if metallic_ratio > 1.5 then 0.06
                else if metallic_ratio > 1.0
                  then (if mean_hue s < 30 \<and> std_gray s < 35 then 0.05 else 0.03)
                else (if mean_hue s < 25 \<and> std_gray s < 30 then 0.04 else 0.01));
          rim_ratio = real (edge_on_ring s) / real (max 1 (ring_area s));
          s3 = (if rim_ratio > 0.15 then 0.10 else if rim_ratio > 0.10 then 0.08
                else if rim_ratio > 0.06 then 0.06 else if rim_ratio > 0.03 then 0.04
                else if rim_ratio > 0.01 then 0.02 else 0);
          s4 = (if outer_count s > 50 then
                  (let contrast = \<bar>outer_mean s - inner_mean s\<bar>
                                  / max 1 ((outer_mean s + inner_mean s) / 2)
                   in if contrast > 0.20 then 0.15 else if contrast > 0.10 then 0.12
                      else if contrast > 0.05 then 0.08 else if contrast > 0.02 then 0.04 else 0)
                else 0);
          s5 = (if std_gray s < 22 then 0.10 else if std_gray s < 30 then 0.08
                else if std_gray s < 38 then 0.06 else if std_gray s < 45 then 0.03
                else if std_gray s < 52 then 0.01 else 0);
          s6 = max 0 ((0.55 - pos_x w c) / 0.55) * 0.07;
          sr = size_ratio w c;
          s7 = (if 0.06 < sr \<and> sr < 0.16 then 0.10
                else if 0.05 < sr \<and> sr < 0.20 then 0.07 else 0.03)
      in s1 + s2 + s3 + s4 + s5 + s6 + s7)"

text \<open>
  One pass of the candidate loop: \<open>None\<close> where the source says \<open>continue\<close>, otherwise the
  circle with its score.
\<close>

type_synonym scored = "icircle \<times> real"

definition score_circle :: "int \<Rightarrow> int \<Rightarrow> (icircle \<Rightarrow> circle_stats) \<Rightarrow> icircle \<Rightarrow> scored option" where
  "score_circle w h stats c =
     (if touches_border w h c then None
      else if pos_x w c > 0.55 then None
      else if \<not> (0.04 < size_ratio w c \<and> size_ratio w c < 0.25) then None
      else if inner_count (stats c) < 200 then None
      else if hard_rejected (stats c) then None
      else Some (c, coin_score w c (stats c)))"

definition to_icircle :: "circle \<Rightarrow> icircle" where
  "to_icircle c = (py_int (fst c), py_int (fst (snd c)), py_int (snd (snd c)))"


text \<open>
  The three tests of the post-processing loop: the candidate is significantly larger than
  the current best, lies at a similar position, and scores reasonably close.
\<close>

definition preferred_over :: "scored \<Rightarrow> scored \<Rightarrow> bool" where
  "preferred_over best candidate =
     (case fst best of (bx, by, br) \<Rightarrow> case fst candidate of (cx, cy, cr) \<Rightarrow>
        real_of_int cr > real_of_int br * 1.3
        \<and> sqrt (real_of_int ((cx - bx)\<^sup>2 + (cy - by)\<^sup>2)) < real_of_int br * 1.5
        \<and> snd candidate > snd best * 0.85)"

definition prefer_larger :: "scored \<Rightarrow> scored \<Rightarrow> scored" where
  "prefer_larger best candidate = (if preferred_over best candidate then candidate else best)"

definition select_best :: "scored list \<Rightarrow> scored option" where
  "select_best scored_circles =
     (case sort_key (\<lambda>c. - snd c) scored_circles of
        [] \<Rightarrow> None
      | best # rest \<Rightarrow> Some (foldl prefer_larger best (take 9 rest)))"

definition min_radius :: "int \<Rightarrow> int" where
  "min_radius w = max 20 (py_int (real_of_int w * 0.025))"

definition scored_circles_of ::
  "int \<Rightarrow> int \<Rightarrow> (icircle \<Rightarrow> circle_stats) \<Rightarrow> circle list \<Rightarrow> scored list" where
  "scored_circles_of w h stats all_circles =
     List.map_filter (score_circle w h stats)
       (map to_icircle (dedup (real_of_int (max 20 (min_radius w div 2))) all_circles))"

definition detect_coin_single_pass ::
  "int \<Rightarrow> int \<Rightarrow> (icircle \<Rightarrow> circle_stats) \<Rightarrow> circle list \<Rightarrow> icircle option \<times> real" where
  "detect_coin_single_pass w h stats all_circles =
     (if all_circles = [] then (None, 0)
      else case select_best (scored_circles_of w h stats all_circles) of
             None \<Rightarrow> (None, 0)
           | Some best \<Rightarrow> (Some (fst best), snd best))"

subsection \<open>\_detect\_coin\_reference\<close>

record coin_result =
  detected :: bool
  pixels_per_cm :: "real option"
  coin_center :: "(int \<times> int) option"
  coin_radius :: "int option"
  coin_diameter_px :: "int option"
  coin_type :: "string option"
  coin_name :: "string option"
  coin_diameter_cm :: "real option"
  detection_score :: "real option"
  coin_confidence :: "real option"
  detection_method :: "string option"

definition not_detected :: coin_result where
  "not_detected =
     \<lparr>detected = False, pixels_per_cm = None, coin_center = None, coin_radius = None,
      coin_diameter_px = None, coin_type = None, coin_name = None, coin_diameter_cm = None,
      detection_score = None, coin_confidence = None, detection_method = None\<rparr>"

text \<open>
  For an image of width \<open>w\<close> and height \<open>h\<close>; the circles and statistics are those of the
  working image, which is the image itself or its copy resized to width 1200.
\<close>

definition detect_scale :: "int \<Rightarrow> real" where
  "detect_scale w = (if w > 1200 then 1200 / real_of_int w else 1.0)"

definition work_width :: "int \<Rightarrow> int" where
  "work_width w = (if w > 1200 then 1200 else w)"

definition work_height :: "int \<Rightarrow> int \<Rightarrow> int" where
  "work_height w h = (if w > 1200 then py_int (real_of_int h * detect_scale w) else h)"

definition detect_coin_reference ::
  "int \<Rightarrow> int \<Rightarrow> (icircle \<Rightarrow> circle_stats) \<Rightarrow> circle list \<Rightarrow> coin_result" where
  "detect_coin_reference w h stats all_circles =
     (let scale = detect_scale w
      in case detect_coin_single_pass (work_width w) (work_height w h) stats all_circles of
           (Some (x, y, r), best_score) \<Rightarrow>
             if best_score \<ge> 0.40 then
               (let x' = (if scale \<noteq> 1.0 then py_int (real_of_int x / scale) else x);
                    y' = (if scale \<noteq> 1.0 then py_int (real_of_int y / scale) else y);
                    r' = (if scale \<noteq> 1.0 then py_int (real_of_int r / scale) else r);
                    diameter_px = 2 * r';
                    pixels_per_mm = real_of_int diameter_px / 25
                in \<lparr>detected = True, pixels_per_cm = Some (pixels_per_mm * 10),
                    coin_center = Some (x', y'), coin_radius = Some r',
                    coin_diameter_px = Some diameter_px, coin_type = Some ''peso_5'',
                    coin_name = Some ''P5 Coin (25mm)'', coin_diameter_cm = Some 2.5,
                    detection_score = Some best_score,
                    coin_confidence = Some (min 0.95 (0.5 + best_score * 0.5)),
                    detection_method = Some ''edge_ring''\<rparr>)
             else not_detected
         | (None, best_score) \<Rightarrow> not_detected)"

subsection \<open>fast\_coin\_search\<close>

record fruit_bbox =
  bbox :: "(real \<times> real \<times> real \<times> real) option"
  bbox_size :: "(real \<times> real) option"

record fast_stats =
  edge_hits :: nat
  n_valid :: nat
  interior_size :: nat
  int_mean :: real
  int_std :: real
  ext_count :: nat
  ext_mean :: real
  roi_size :: nat
  mean_s :: real
  high_sat_ratio :: real
  ext_sat :: real

definition fast_scale :: "int \<Rightarrow> int \<Rightarrow> real" where
  "fast_scale h_orig w_orig =
     (if max h_orig w_orig > 512 then 512 / real_of_int (max h_orig w_orig) else 1.0)"

definition fruit_rect :: "real \<Rightarrow> fruit_bbox option \<Rightarrow> (real \<times> real \<times> real \<times> real) option" where
  "fruit_rect scale fb =
     (case fb of
        None \<Rightarrow> None
      | Some f \<Rightarrow>
          (case bbox f of
             None \<Rightarrow> None
           | Some (b0, b1, b2, b3) \<Rightarrow>
               let fw = (b2 - b0) * scale; fh = (b3 - b1) * scale;
                   margin_x = fw * 0.15; margin_y = fh * 0.15
               in Some (b0 * scale + margin_x, b1 * scale + margin_y,
                        b2 * scale - margin_x, b3 * scale - margin_y)))"

definition fast_score :: "int \<Rightarrow> int \<Rightarrow> fast_stats \<Rightarrow> real" where
  "fast_score w r s =
     (let edge_ratio = real (edge_hits s) / real (max 1 (n_valid s));
          c1 = min 0.25 (edge_ratio * 0.42);
          c2 = (if interior_size s > 4 \<and> ext_count s > 4 then
                  (let contrast = \<bar>int_mean s - ext_mean s\<bar>
                   in if contrast > 30 then 0.20 else if contrast > 20 then 0.15
                      else if contrast > 12 then 0.08 else 0)
                else 0);
          c3 = (if interior_size s > 16 then
                  (if 12 < int_std s \<and> int_std s < 55 then 0.15
                   else if 8 < int_std s \<and> int_std s < 60 then 0.08 else 0)
                else 0);
          c4 = (if roi_size s > 0 then
                  (if mean_s s < 45 \<and> high_sat_ratio s < 0.10 then 0.15
                   else if mean_s s < 65 \<and> high_sat_ratio s < 0.25 then 0.08 else 0)
                else 0);
          c5 = (if ext_count s > 4 then
                  (if ext_mean s > 190 \<and> ext_sat s < 40 then 0.20
                   else if ext_mean s > 170 \<and> ext_sat s < 55 then 0.12
                   else if ext_mean s > 150 \<and> ext_sat s < 40 then 0.06 else 0)
                else 0);
          sr = real_of_int (2 * r) / real_of_int w;
          c6 = (if 0.04 < sr \<and> sr < 0.12 then 0.05 else 0)
      in c1 + c2 + c3 + c4 + c5 + c6)"

type_synonym fast_candidate = "real \<times> int \<times> int \<times> int"

definition fast_candidate_of ::
  "int \<Rightarrow> int \<Rightarrow> (real \<times> real \<times> real \<times> real) option \<Rightarrow> (icircle \<Rightarrow> fast_stats) \<Rightarrow> circle
     \<Rightarrow> fast_candidate option" where
  "fast_candidate_of w h rect stats c =
     (let cx = py_int (fst c); cy = py_int (fst (snd c)); r = max 1 (py_int (snd (snd c))) in
      if cx - r < 2 \<or> cy - r < 2 \<or> cx + r \<ge> w - 2 \<or> cy + r \<ge> h - 2 then None
      else if (case rect of
                 None \<Rightarrow> False
               | Some (r0, r1, r2, r3) \<Rightarrow>
                   r0 < real_of_int cx \<and> real_of_int cx < r2
                   \<and> r1 < real_of_int cy \<and> real_of_int cy < r3) then None
      else if real (edge_hits (stats (cx, cy, r))) / real (max 1 (n_valid (stats (cx, cy, r)))) < 0.15
        then None
      else Some (fast_score w r (stats (cx, cy, r)), cx, cy, r))"

text \<open>
  The validation loop over the sorted candidates: \<open>break\<close> at the first score below 0.55,
  \<open>continue\<close> past a candidate that implies an implausible fruit size.
\<close>

fun validate_candidates ::
  "real \<Rightarrow> reference_info \<Rightarrow> fruit_bbox option \<Rightarrow> fast_candidate list \<Rightarrow> coin_result" where
  "validate_candidates scale info fb [] = not_detected"
| "validate_candidates scale info fb ((sc, cx, cy, r) # rest) =
     (if sc < 0.55 then not_detected
      else
        let coin_diameter_cm = (case diameter info of None \<Rightarrow> 2.4 | Some d \<Rightarrow> d);
            cx_orig = py_int (real_of_int cx / scale);
            cy_orig = py_int (real_of_int cy / scale);
            r_orig = py_int (real_of_int r / scale);
            ppcm = real_of_int (r_orig * 2) / coin_diameter_cm;
            implausible =
              (case fb of
                 None \<Rightarrow> False
               | Some f \<Rightarrow>
                   (case bbox_size f of
                      None \<Rightarrow> False
                    | Some (s0, s1) \<Rightarrow>
                        let fw_cm = s0 / ppcm; fh_cm = s1 / ppcm;
                            fruit_len = max fw_cm fh_cm; fruit_wid = min fw_cm fh_cm
                        in fruit_len > 9.0 \<or> fruit_len < 2.5 \<or> fruit_wid > 7.0 \<or> fruit_wid < 1.5))
        in if implausible then validate_candidates scale info fb rest
           else \<lparr>detected = True, pixels_per_cm = Some ppcm,
                 coin_center = Some (cx_orig, cy_orig), coin_radius = Some r_orig,
                 coin_diameter_px = Some (r_orig * 2), coin_type = None,
                 coin_name = Some (ref_name info), coin_diameter_cm = Some coin_diameter_cm,
                 detection_score = None, coin_confidence = Some (min 0.90 sc),
                 detection_method = Some ''size_aware_circle''\<rparr>)"

text \<open>
  \<open>border_brightness\<close> is the mean grey level of the border strips; \<open>circles\<close> is the result
  of the single \<open>HoughCircles\<close> call on the downscaled image, \<open>None\<close> when it finds nothing.
\<close>

definition fast_coin_search ::
  "reference_info \<Rightarrow> int \<Rightarrow> int \<Rightarrow> real \<Rightarrow> circle list option \<Rightarrow> (icircle \<Rightarrow> fast_stats)
     \<Rightarrow> fruit_bbox option \<Rightarrow> coin_result" where
  "fast_coin_search info h_orig w_orig border_brightness circles stats fb =
     (if border_brightness < 165 then not_detected
      else
        let scale = fast_scale h_orig w_orig;
            w = (if max h_orig w_orig > 512 then py_int (real_of_int w_orig * scale) else w_orig);
            h = (if max h_orig w_orig > 512 then py_int (real_of_int h_orig * scale) else h_orig)
        in case circles of
             None \<Rightarrow> not_detected
           | Some cs \<Rightarrow>
               let candidates =
                     List.map_filter (fast_candidate_of w h (fruit_rect scale fb) stats) (take 10 cs)
               in if candidates = [] then not_detected
                  else validate_candidates scale info fb (sort_key (\<lambda>c. - fst c) candidates))"

section \<open>Fruit measurement and the estimation entry point\<close>

text \<open>
  \<open>_segment_fruit\<close> and \<open>cv2.fitEllipse\<close> are inputs: \<open>None\<close> when no contour above 1 per cent
  of the image is found, otherwise the number of contour points and the two axis lengths
  in the order in which \<open>fitEllipse\<close> returns them.
\<close>

record fruit_fit =
  contour_points :: nat
  axis_first :: real
  axis_second :: real

record fruit_dims =
  length_cm :: real
  width_cm :: real
  area_cm2 :: real
  estimated_weight_g :: real
  estimated_kernel_mass_g :: real

text \<open>The two axes after the swap that makes the major axis the longer one.\<close>

definition major_axis_px :: "fruit_fit \<Rightarrow> real" where
  "major_axis_px f = (if axis_second f < axis_first f then axis_first f else axis_second f)"

definition minor_axis_px :: "fruit_fit \<Rightarrow> real" where
  "minor_axis_px f = (if axis_second f < axis_first f then axis_second f else axis_first f)"

definition measure_fruit :: "fruit_fit option \<Rightarrow> real \<Rightarrow> fruit_dims option" where
  "measure_fruit fit ppcm =
     (case fit of
        None \<Rightarrow> None
      | Some f \<Rightarrow>
          if contour_points f \<ge> 5 then
            (let len = np_clip (major_axis_px f / ppcm) 3.0 8.0;
                 wid = np_clip (minor_axis_px f / ppcm) 1.5 6.0;
                 area = pi * (len / 2) * (wid / 2);
                 volume_cm3 = (4 / 3) * pi * (len / 2) * (wid / 2) * (wid / 2 * 0.8);
                 weight = np_clip (volume_cm3 * 0.85) 15.0 60.0;
                 kernel_mass = np_clip (0.1 + (len * wid / 35) * 0.6) 0.1 0.9
             in Some \<lparr>length_cm = py_round len 2, width_cm = py_round wid 2,
                      area_cm2 = py_round area 2,
                      estimated_weight_g = py_round weight 1,
                      estimated_kernel_mass_g = py_round kernel_mass 3\<rparr>)
          else None)"

text \<open>The raw, unclamped sizes that \<open>_measure_fruit\<close> derives from the ellipse.\<close>

definition raw_length :: "fruit_fit \<Rightarrow> real \<Rightarrow> real" where
  "raw_length f ppcm = major_axis_px f / ppcm"

definition raw_width :: "fruit_fit \<Rightarrow> real \<Rightarrow> real" where
  "raw_width f ppcm = minor_axis_px f / ppcm"




subsection \<open>estimate\_from\_image\<close>












section \<open>Sample inputs\<close>

text \<open>
  Concrete images used to run the model. Each pixel value is a BGR colour converted by
  hand to both colour spaces, so the two triples of a pixel are consistent.
\<close>

definition pixel_of :: "triple \<Rightarrow> triple \<Rightarrow> pixel" where
  "pixel_of a b = \<lparr>hsv = a, ycrcb = b\<rparr>"

definition green_px :: pixel where "green_px = pixel_of (60, 100, 150) (126, 103, 108)"
definition vivid_green_px :: pixel where "vivid_green_px = pixel_of (60, 200, 200) (135, 62, 76)"
definition white_px :: pixel where "white_px = pixel_of (0, 0, 255) (255, 128, 128)"
definition skin_px :: pixel where "skin_px = pixel_of (10, 100, 220) (177, 159, 104)"
definition brown_px :: pixel where "brown_px = pixel_of (15, 200, 150) (102, 162, 89)"

text \<open>A 40 by 40 photograph: a green fruit of 600 pixels on a white background.\<close>

definition fruit_image :: image where
  "fruit_image = \<lparr>height = 40, width = 40,
                   pixels = replicate 600 green_px @ replicate 1000 white_px\<rparr>"

definition fruit_mask :: "bool list" where
  "fruit_mask = replicate 600 True @ replicate 1000 False"

definition fruit_contour :: contour where
  "fruit_contour = \<lparr>c_area = 600, c_perimeter = 95, n_points = 40, ellipse_minor = 22,
                     ellipse_major = 35.2, rect_w = 35, rect_h = 22, hull_area = 610\<rparr>"

text \<open>
  The measurements that go with the sample photographs. The selected pixels have one
  colour, so their grey level and hue do not vary; the Laplacian is non-zero only along
  the outline of the selection.
\<close>

definition fruit_cv :: cv_measurements where
  "fruit_cv = \<lparr>blank_in = \<lparr>global_var = 3900, edge_pixels = 100, value_var = 2500\<rparr>,
                faces = 0, largest = Some fruit_contour,
                gray_std = 0, hue_std = 0, lap_var = 2100\<rparr>"









text \<open>
  A 10 by 10 photograph of a hand holding a fruit: 30 skin pixels, 7 green pixels, 14 brown
  pixels that are too saturated to be skin, and 49 white pixels.
\<close>

definition hand_image :: image where
  "hand_image = \<lparr>height = 10, width = 10,
                  pixels = replicate 30 skin_px @ replicate 7 vivid_green_px
                           @ replicate 14 brown_px @ replicate 49 white_px\<rparr>"

text \<open>
  A 100 by 100 photograph of a hand (30 per cent skin) holding something vividly green
  (saturation 200) of \<open>g\<close> pixels on white. The mask selects the green pixels, a roundish
  blob.
\<close>

definition held_image :: "nat \<Rightarrow> image" where
  "held_image g = \<lparr>height = 100, width = 100,
                    pixels = replicate 3000 skin_px @ replicate g vivid_green_px
                             @ replicate (7000 - g) white_px\<rparr>"

definition held_mask :: "nat \<Rightarrow> bool list" where
  "held_mask g = replicate 3000 False @ replicate g True @ replicate (7000 - g) False"

definition blob_contour :: contour where
  "blob_contour = \<lparr>c_area = 1000, c_perimeter = 122, n_points = 40, ellipse_minor = 35,
                    ellipse_major = 36.75, rect_w = 37, rect_h = 35, hull_area = 1020\<rparr>"

definition blob_cv :: cv_measurements where
  "blob_cv = fruit_cv\<lparr>largest := Some blob_contour\<rparr>"




text \<open>
  Ellipse fits for the measurement: a fruit of 400 by 300 pixels, and a contour of 1200
  by 50 pixels whose raw sizes fall outside both ranges at 100 pixels per centimetre.
\<close>

definition almond_fit :: fruit_fit where
  "almond_fit = \<lparr>contour_points = 40, axis_first = 300, axis_second = 400\<rparr>"

definition sliver_fit :: fruit_fit where
  "sliver_fit = \<lparr>contour_points = 40, axis_first = 50, axis_second = 1200\<rparr>"

text \<open>
  Statistics of a bright, unsaturated disc with a complete rim on a light background,
  around a circle of radius \<open>r\<close>: about \<open>3 r r\<close> pixels inside and in the outer annulus, a
  rim band of thickness \<open>max 2 (r div 12)\<close> of which a quarter are edge pixels. The
  statistics of the fast search are those of a circle of radius 25.
\<close>

definition coin_stats :: "icircle \<Rightarrow> circle_stats" where
  "coin_stats c =
     (case c of (x, y, r) \<Rightarrow>
        \<lparr>inner_count = nat (3 * r * r), mean_hue = 20, mean_sat = 30, mean_val = 180,
         std_gray = 20, inner_mean = 170, sector_hits = 34,
         ring_area = nat (12 * r * max 2 (r div 12)),
         edge_on_ring = nat (3 * r * max 2 (r div 12)),
         outer_count = nat (3 * r * r), outer_mean = 240\<rparr>)"

definition coin_fast_stats :: "icircle \<Rightarrow> fast_stats" where
  "coin_fast_stats c = \<lparr>edge_hits = 22, n_valid = 24, interior_size = 676, int_mean = 170,
                         int_std = 20, ext_count = 24, ext_mean = 240, roi_size = 2028,
                         mean_s = 30, high_sat_ratio = 0.02, ext_sat = 10\<rparr>"

section \<open>Bounds on pi\<close>

lemma sum_less9: "(\<Sum>m<9. f m) = f 0 + f 1 + f 2 + f 3 + f 4 + f 5 + f 6 + f 7 + f (8::nat)"
  for f :: "nat \<Rightarrow> real"
  by (simp add: eval_nat_numeral)

lemma sin_coeffs:
  "sin_coeff 0 = 0" "sin_coeff 1 = 1" "sin_coeff 2 = 0" "sin_coeff 3 = - (1/6)"
  "sin_coeff 4 = 0" "sin_coeff 5 = 1/120" "sin_coeff 6 = 0" "sin_coeff 7 = - (1/5040)"
  "sin_coeff 8 = 0" "sin_coeff (Suc 0) = 1"
  by (simp_all add: sin_coeff_def fact_numeral)

lemma sin_poly9: "(\<Sum>m<9. sin_coeff m * x ^ m) = x - x^3/6 + x^5/120 - x^7/5040" for x :: real
  unfolding sum_less9 by (simp add: sin_coeffs)

lemma sin_taylor_bounds:
  fixes x :: real
  assumes "0 \<le> x"
  shows "sin x \<le> x - x^3/6 + x^5/120 - x^7/5040 + x^9/362880"
    and "x - x^3/6 + x^5/120 - x^7/5040 - x^9/362880 \<le> sin x"
proof -
  have b: "\<bar>sin x - (\<Sum>m<9. sin_coeff m * x ^ m)\<bar> \<le> inverse (fact 9) * \<bar>x\<bar> ^ 9"
    by (rule Maclaurin_sin_bound)
  have e: "inverse (fact 9) * \<bar>x\<bar> ^ 9 = x^9/362880"
    using assms by (simp add: fact_numeral)
  show "sin x \<le> x - x^3/6 + x^5/120 - x^7/5040 + x^9/362880"
    using b unfolding sin_poly9 e by linarith
  show "x - x^3/6 + x^5/120 - x^7/5040 - x^9/362880 \<le> sin x"
    using b unfolding sin_poly9 e by linarith
qed

lemma pi_lower: "3.1415 < pi"
proof -
  define a :: real where "a = 31415 / 60000"
  have "sin a \<le>  a - a^3/6 + a^5/120 - a^7/5040 + a^9/362880"
    by (rule sin_taylor_bounds) (simp add: a_def)
  also have "\<dots> < 1/2"
    by (simp add: a_def power_divide)
  finally have "sin a < sin (pi/6)" by (simp add: sin_30)
  moreover have "a \<le> pi/2" "- (pi/2) \<le> a" using pi_ge_two by (simp_all add: a_def)
  ultimately have "a < pi/6"
    using sin_mono_less_eq[of a "pi/6"] pi_ge_two by simp
  then show ?thesis by (simp add: a_def)
qed

lemma pi_upper: "pi < 3.1416"
proof -
  define a :: real where "a = 31416 / 60000"
  have "1/2 < a - a^3/6 + a^5/120 - a^7/5040 - a^9/362880"
    by (simp add: a_def power_divide)
  also have "\<dots> \<le> sin a"
    by (rule sin_taylor_bounds) (simp add: a_def)
  finally have "sin (pi/6) < sin a" by (simp add: sin_30)
  moreover have "a \<le> pi/2" "- (pi/2) \<le> a" using pi_ge_two by (simp_all add: a_def)
  ultimately have "pi/6 < a"
    using sin_mono_less_eq[of "pi/6" a] pi_ge_two by simp
  then show ?thesis by (simp add: a_def)
qed

section \<open>Rounding\<close>

lemma rhe_ge_floor: "\<lfloor>y\<rfloor> \<le> round_half_even y"
  by (simp add: round_half_even_def Let_def)

lemma rhe_le_floor1: "round_half_even y \<le> \<lfloor>y\<rfloor> + 1"
  by (simp add: round_half_even_def Let_def)

lemma rhe_of_int [simp]: "round_half_even (of_int k) = k"
  by (simp add: round_half_even_def Let_def)

lemma rhe_lower: "of_int k \<le> y \<Longrightarrow> k \<le> round_half_even y"
proof -
  assume "of_int k \<le> y"
  then have "k \<le> \<lfloor>y\<rfloor>" by (simp add: le_floor_iff)
  then show ?thesis using rhe_ge_floor[of y] by linarith
qed

lemma rhe_upper: "y \<le> of_int k \<Longrightarrow> round_half_even y \<le> k"
proof -
  assume a: "y \<le> of_int k"
  show ?thesis
  proof (cases "y = of_int k")
    case True then show ?thesis by simp
  next
    case False
    with a have "y < of_int k" by simp
    then have "\<lfloor>y\<rfloor> < k" by (simp add: floor_less_iff)
    then show ?thesis using rhe_le_floor1[of y] by linarith
  qed
qed


lemma rhe_close: "\<bar>of_int (round_half_even y) - y\<bar> \<le> 1 / 2"
  unfolding round_half_even_def Let_def
  by (auto simp: abs_if; linarith)


lemma py_round_lower:
  assumes "lo * 10 ^ n = of_int k" "lo \<le> x"
  shows "lo \<le> py_round x n"
proof -
  have "of_int k \<le> x * 10 ^ n"
    using assms by (metis mult_right_mono zero_le_numeral zero_le_power)
  then have "k \<le> round_half_even (x * 10 ^ n)" by (rule rhe_lower)
  then have "(of_int k :: real) \<le> of_int (round_half_even (x * 10 ^ n))" by simp
  then have "lo * 10 ^ n \<le> of_int (round_half_even (x * 10 ^ n))" using assms by simp
  then show ?thesis unfolding py_round_def by (simp add: pos_le_divide_eq)
qed

lemma py_round_upper:
  assumes "hi * 10 ^ n = of_int k" "x \<le> hi"
  shows "py_round x n \<le> hi"
proof -
  have "x * 10 ^ n \<le> of_int k"
    using assms by (metis mult_right_mono zero_le_numeral zero_le_power)
  then have "round_half_even (x * 10 ^ n) \<le> k" by (rule rhe_upper)
  then have "(of_int (round_half_even (x * 10 ^ n)) :: real) \<le> of_int k" by simp
  then have "of_int (round_half_even (x * 10 ^ n)) \<le> hi * 10 ^ n" using assms by simp
  then show ?thesis unfolding py_round_def by (simp add: pos_divide_le_eq)
qed

lemma py_round_exact:
  assumes "x * 10 ^ n = of_int k"
  shows "py_round x n = x"
  using assms unfolding py_round_def by (simp add: field_simps)

lemma py_round_close: "\<bar>py_round x n - x\<bar> \<le> 1 / (2 * 10 ^ n)"
proof -
  have "\<bar>of_int (round_half_even (x * 10 ^ n)) - x * 10 ^ n\<bar> \<le> 1 / 2" by (rule rhe_close)
  then have "\<bar>of_int (round_half_even (x * 10 ^ n)) - x * 10 ^ n\<bar> / 10 ^ n \<le> (1 / 2) / 10 ^ n"
    by (intro divide_right_mono) auto
  moreover have "\<bar>of_int (round_half_even (x * 10 ^ n)) - x * 10 ^ n\<bar> / 10 ^ n
      = \<bar>(of_int (round_half_even (x * 10 ^ n)) - x * 10 ^ n) / 10 ^ n\<bar>"
    by simp
  moreover have "(of_int (round_half_even (x * 10 ^ n)) - x * 10 ^ n) / 10 ^ n = py_round x n - x"
    unfolding py_round_def by (simp add: field_simps)
  ultimately show ?thesis by simp
qed

lemma py_round_0 [simp]: "py_round 0 n = 0"
  by (simp add: py_round_def round_half_even_def)

lemma py_round_unit:
  assumes "0 \<le> x" "x \<le> 1"
  shows "0 \<le> py_round x n \<and> py_round x n \<le> 1"
proof -
  have "(0::real) * 10 ^ n = of_int 0" by simp
  then have l: "0 \<le> py_round x n" using assms(1) by (rule py_round_lower)
  have "(1::real) * 10 ^ n = of_int (10 ^ n)" by simp
  then have "py_round x n \<le> 1" using assms(2) by (rule py_round_upper)
  with l show ?thesis by simp
qed

lemma rhe_eq:
  assumes "of_int k - 1 / 2 < y" "y < of_int k + 1 / 2"
  shows "round_half_even y = k"
proof -
  have "\<lfloor>y\<rfloor> = k \<or> \<lfloor>y\<rfloor> = k - 1" using assms by linarith
  then show ?thesis
  proof
    assume f: "\<lfloor>y\<rfloor> = k"
    then have "y - of_int \<lfloor>y\<rfloor> < 1 / 2" using assms by simp
    then show ?thesis using f by (simp add: round_half_even_def Let_def)
  next
    assume f: "\<lfloor>y\<rfloor> = k - 1"
    then have "y - of_int \<lfloor>y\<rfloor> > 1 / 2" using assms by simp
    then show ?thesis using f by (simp add: round_half_even_def Let_def)
  qed
qed

lemma py_round_eq:
  assumes "of_int k - 1 / 2 < x * 10 ^ n" "x * 10 ^ n < of_int k + 1 / 2"
  shows "py_round x n = of_int k / 10 ^ n"
  unfolding py_round_def using rhe_eq[OF assms] by simp

lemma rhe_numeral [simp]: "round_half_even (numeral n) = numeral n"
  using rhe_of_int[of "numeral n"] by simp

lemma rhe_0 [simp]: "round_half_even 0 = 0"
  using rhe_of_int[of 0] by simp

lemma rhe_1 [simp]: "round_half_even 1 = 1"
  using rhe_of_int[of 1] by simp

section \<open>Counting over sample images\<close>

lemma count_where_replicate [simp]:
  "count_where P (replicate n x) = (if P x then n else 0)"
  by (simp add: count_where_def)

lemma count_where_append [simp]:
  "count_where P (xs @ ys) = count_where P xs + count_where P ys"
  by (simp add: count_where_def)

lemma count_where_le: "count_where P xs \<le> length xs"
  by (simp add: count_where_def)


section \<open>Running the guard on the sample photograph\<close>


lemmas band_defs = talisay_green_def talisay_yellow_def talisay_brown_def siling_green_def
  siling_red_1_def siling_red_2_def skin_hsv_def skin_ycrcb_def in_range_def sat_def val_def hue_def












lemma check_talisay_shape_eval:
  assumes "\<not> c_area c < 300" "c_perimeter c \<noteq> 0"
    and "aspect = shape_aspect c"
    and "circ = circularity_of c"
    and "sol = (if hull_area c > 0 then c_area c / hull_area c else 0)"
    and "sc = aspect_score aspect + circularity_score circ + solidity_score sol"
  shows "check_talisay_shape (Some c) =
     \<lparr>shape_passes = (sc \<ge> 0.50 \<and> aspect \<ge> 1.1 \<and> aspect \<le> 3.0 \<and> circ \<le> 0.90),
      shape_score = py_round sc 3, aspect_ratio = Some (py_round aspect 3),
      circularity = Some (py_round circ 3), solidity = Some (py_round sol 3)\<rparr>"
  using assms by (simp add: check_talisay_shape_def Let_def)



lemma verify_composite_verdict:
  assumes "reaches_composite img msk m"
  shows "verdict (verify img msk m) =
     (let cr = check_talisay_colour img msk; sr = check_talisay_shape (largest m);
          tr = check_talisay_texture img msk m
      in if composite_accepted img (check_person img (faces m)) cr sr tr then ACCEPT
         else if \<not> colour_passes cr then REJECT_WRONG_COLOUR
         else if \<not> shape_passes sr then REJECT_WRONG_SHAPE
         else REJECT_LOW_CONFIDENCE)"
  using assms
  by (simp add: verify_def reaches_composite_def reaches_shape_gate_def Let_def make_verdict_def)

lemma verify_composite_accepted:
  assumes "reaches_composite img msk m"
  shows "accepted (verify img msk m) =
      composite_accepted img (check_person img (faces m)) (check_talisay_colour img msk)
         (check_talisay_shape (largest m)) (check_talisay_texture img msk m)"
  using assms
  by (simp add: verify_def reaches_composite_def reaches_shape_gate_def Let_def make_verdict_def)



lemma composite_accepted_iff:
  "composite_accepted img p cr sr tr \<longleftrightarrow>
     (positive_count cr sr tr \<ge> 3
        \<or> (positive_count cr sr tr \<ge> 2 \<and> composite cr sr tr \<ge> 0.55))
     \<and> composite cr sr tr \<ge> 0.35
     \<and> \<not> skin_veto img p (positive_count cr sr tr)"
  by (auto simp add: composite_accepted_def Let_def MIN_POSITIVE_LAYERS_def MIN_GUARD_SCORE_def)




section \<open>Ranges of the layer scores and shape of the verdict\<close>


lemma band_cov_unit: "0 \<le> band_cov P ps \<and> band_cov P ps \<le> 1"
proof -
  have "real (count_where P ps) \<le> real (length ps)" using count_where_le[of P ps] by simp
  then show ?thesis by (simp add: band_cov_def divide_le_eq_1)
qed

lemma colour_score_unit:
  "0 \<le> colour_score (check_talisay_colour_px ps) \<and> colour_score (check_talisay_colour_px ps) \<le> 1"
proof (cases "length ps < 200")
  case True
  then show ?thesis by (simp add: check_talisay_colour_px_def)
next
  case False
  have t: "0 \<le> band_cov talisay_any ps" using band_cov_unit by simp
  define s where "s = min 1 (band_cov talisay_any ps / 0.60)"
  define v where "v = (if dominant_cov ps < 0.15 then s * 0.5 else s)"
  have s: "0 \<le> s" "s \<le> 1" using t by (simp_all add: s_def)
  have "0 \<le> v" "v \<le> 1" using s by (simp_all add: v_def)
  then have "0 \<le> py_round v 3 \<and> py_round v 3 \<le> 1" by (rule py_round_unit)
  moreover have "colour_score (check_talisay_colour_px ps) = py_round v 3"
    using False by (simp add: check_talisay_colour_px_def Let_def v_def s_def)
  ultimately show ?thesis by simp
qed

lemma aspect_score_bounds: "0 \<le> aspect_score a \<and> aspect_score a \<le> 2 / 5"
  by (auto simp add: aspect_score_def talisay_aspect_range_def Let_def abs_if field_simps)

lemma circularity_score_bounds: "0 \<le> circularity_score c \<and> circularity_score c \<le> 3 / 10"
  by (simp add: circularity_score_def)

lemma solidity_score_bounds: "0 \<le> solidity_score c \<and> solidity_score c \<le> 3 / 10"
  by (simp add: solidity_score_def)

lemma shape_score_unit:
  "0 \<le> shape_score (check_talisay_shape lc) \<and> shape_score (check_talisay_shape lc) \<le> 1"
proof (cases lc)
  case None
  then show ?thesis by (simp add: check_talisay_shape_def)
next
  case (Some c)
  define sc where "sc = aspect_score (shape_aspect c) + circularity_score (circularity_of c)
             + solidity_score (if hull_area c > 0 then c_area c / hull_area c else 0)"
  have "0 \<le> sc" "sc \<le> 1"
    using aspect_score_bounds[of "shape_aspect c"] circularity_score_bounds[of "circularity_of c"]
      solidity_score_bounds[of "if hull_area c > 0 then c_area c / hull_area c else 0"]
    unfolding sc_def by linarith+
  then have "0 \<le> py_round sc 3 \<and> py_round sc 3 \<le> 1" by (rule py_round_unit)
  then show ?thesis using Some by (simp add: check_talisay_shape_def Let_def sc_def)
qed

lemma texture_score_unit:
  "0 \<le> texture_score (check_talisay_texture img msk m)
   \<and> texture_score (check_talisay_texture img msk m) \<le> 1"
proof (cases "length (masked img msk) < 200")
  case True
  then show ?thesis by (simp add: check_talisay_texture_def Let_def)
next
  case False
  define a :: real where "a = (if 15 < gray_std m \<and> gray_std m < 70 then 0.35
               else if 10 < gray_std m \<and> gray_std m < 80 then 0.15 else 0)"
  define lshv where "lshv = real (count_where (\<lambda>p. sat p < 40 \<and> val p > 180) (masked img msk))
              / real (length (masked img msk))"
  define b :: real where "b = (if lshv < 0.15 then 0.25 else if lshv < 0.25 then 0.10 else 0)"
  define c :: real where "c = (if hue_std m < 20 then 0.25 else if hue_std m < 30 then 0.12 else 0)"
  define d :: real where "d = (if 50 < lap_var m \<and> lap_var m < 3000 then 0.15
                 else if 20 < lap_var m \<and> lap_var m < 5000 then 0.05 else 0)"
  have "0 \<le> a \<and> a \<le> 7 / 20" "0 \<le> b \<and> b \<le> 1 / 4" "0 \<le> c \<and> c \<le> 1 / 4"
    "0 \<le> d \<and> d \<le> 3 / 20"
    by (simp_all add: a_def b_def c_def d_def)
  then have "0 \<le> a + b + c + d" "a + b + c + d \<le> 1" by linarith+
  then have "0 \<le> py_round (a + b + c + d) 3 \<and> py_round (a + b + c + d) 3 \<le> 1"
    by (rule py_round_unit)
  moreover have "texture_score (check_talisay_texture img msk m) = py_round (a + b + c + d) 3"
    using False
    by (simp add: check_talisay_texture_def Let_def a_def b_def c_def d_def lshv_def)
  ultimately show ?thesis by simp
qed

lemma composite_bounds:
  assumes "0 \<le> a \<and> a \<le> 1" "0 \<le> b \<and> b \<le> 1" "0 \<le> c \<and> c \<le> (1::real)"
  shows "0 \<le> a * 0.45 + b * 0.30 + c * 0.25" "a * 0.45 + b * 0.30 + c * 0.25 \<le> 1"
  using assms by simp_all

lemma composite_unit:
  "0 \<le> composite (check_talisay_colour img msk) (check_talisay_shape lc)
           (check_talisay_texture img msk m)
   \<and> composite (check_talisay_colour img msk) (check_talisay_shape lc)
           (check_talisay_texture img msk m) \<le> 1"
  using composite_bounds[OF colour_score_unit[of "masked img msk"] shape_score_unit[of lc]
    texture_score_unit[of img msk m]]
  unfolding composite_def check_talisay_colour_def by simp

lemma verify_score_unit: "0 \<le> score (verify img msk m) \<and> score (verify img msk m) \<le> 1"
proof -
  have c: "0 \<le> py_round (composite (check_talisay_colour img msk) (check_talisay_shape (largest m))
           (check_talisay_texture img msk m)) 3
     \<and> py_round (composite (check_talisay_colour img msk) (check_talisay_shape (largest m))
           (check_talisay_texture img msk m)) 3 \<le> 1"
    using composite_unit[of img msk "largest m" m] py_round_unit by blast
  show ?thesis
    using c by (simp add: verify_def Let_def make_verdict_def)
qed

lemma verify_accepted_iff: "accepted (verify img msk m) \<longleftrightarrow> verdict (verify img msk m) = ACCEPT"
  by (simp add: verify_def Let_def make_verdict_def)

lemma GuardVerdict_UNIV:
  "(UNIV :: GuardVerdict set) =
     {ACCEPT, REJECT_BLANK, REJECT_PERSON, REJECT_CAPSICUM, REJECT_NON_TALISAY_FRUIT,
      REJECT_WRONG_SHAPE, REJECT_WRONG_COLOUR, REJECT_WRONG_TEXTURE,
      REJECT_LOW_CONFIDENCE, REJECT_GENERIC}"
proof -
  have "x \<in> {ACCEPT, REJECT_BLANK, REJECT_PERSON, REJECT_CAPSICUM, REJECT_NON_TALISAY_FRUIT,
      REJECT_WRONG_SHAPE, REJECT_WRONG_COLOUR, REJECT_WRONG_TEXTURE,
      REJECT_LOW_CONFIDENCE, REJECT_GENERIC}" for x :: GuardVerdict
    by (cases x) simp_all
  then show ?thesis by blast
qed

lemma GuardVerdict_card: "card (UNIV :: GuardVerdict set) = 10"
  unfolding GuardVerdict_UNIV by simp

section \<open>The shape gate and the round samples\<close>








section \<open>The person layer on the hand sample\<close>

lemmas pixel_defs = green_px_def vivid_green_px_def white_px_def skin_px_def brown_px_def
  pixel_of_def

lemma hand_coverages:
  "coverage combined_skin hand_image = 0.30"
  "coverage strong_rescue hand_image = 0.07"
  "coverage talisay_brown_nonskin hand_image = 0.14"
  "coverage total_rescue hand_image = 0.21"
  by (simp_all add: coverage_def hand_image_def combined_skin_def strong_rescue_def
      talisay_brown_nonskin_def total_rescue_def pixel_defs band_defs)

lemma check_person_is_person:
  "is_person (check_person img n_faces) \<longleftrightarrow>
     (n_faces > 0 \<and> coverage strong_rescue img < 0.05)
     \<or> (coverage combined_skin img > 0.25
         \<and> \<not> coverage strong_rescue img \<ge> 0.08
         \<and> \<not> (coverage total_rescue img \<ge> 0.20 \<and> coverage combined_skin img < 0.45))"
  by (simp add: check_person_def Let_def MAX_SKIN_COVERAGE_def)

section \<open>The skin-sensitivity block on the held-fruit samples\<close>

lemma np_median_replicate: "0 < n \<Longrightarrow> np_median (replicate n x) = real x"
proof -
  assume n: "0 < n"
  have s: "sort (replicate n x) = replicate n x"
    by (rule sorted_sort_id) (simp add: sorted_replicate)
  have "n div 2 < n" "n div 2 - 1 < n" using n by simp_all
  then show ?thesis by (simp add: np_median_def s Let_def)
qed

lemma masked_three_blocks:
  "masked \<lparr>height = h, width = w, pixels = replicate a p @ replicate b q @ replicate c r\<rparr>
          (replicate a False @ replicate b True @ replicate c False) = replicate b (hsv q)"
  by (simp add: masked_def zip_replicate)

lemma hand_green_white_coverages:
  "coverage combined_skin
     \<lparr>height = 100, width = 100,
      pixels = replicate 3000 skin_px @ replicate g vivid_green_px @ replicate k white_px\<rparr> = 0.30"
  "coverage strong_rescue
     \<lparr>height = 100, width = 100,
      pixels = replicate 3000 skin_px @ replicate g vivid_green_px @ replicate k white_px\<rparr>
     = real g / 10000"
  by (simp_all add: coverage_def combined_skin_def strong_rescue_def pixel_defs band_defs)

lemma hand_green_white_sat:
  "green_sat_vals
     \<lparr>height = 100, width = 100,
      pixels = replicate 3000 skin_px @ replicate g vivid_green_px @ replicate k white_px\<rparr>
     = replicate g 200"
  by (simp add: green_sat_vals_def pixel_defs band_defs)

lemma hand_green_white_not_blank:
  "k \<le> 9000 \<Longrightarrow> \<not> is_blank (check_blank_image
     \<lparr>height = 100, width = 100,
      pixels = replicate 3000 skin_px @ replicate g vivid_green_px @ replicate k white_px\<rparr>
     (blank_in fruit_cv))"
  by (simp add: check_blank_image_def fruit_cv_def pixel_defs band_defs)

lemma check_person_not_person:
  assumes "\<not> is_person (check_person img n)"
  shows "skin_coverage (check_person img n) = Some (coverage combined_skin img)"
    and "strong_rescue_coverage (check_person img n) = coverage strong_rescue img"
  using assms by (simp_all add: check_person_def Let_def split: if_splits)

lemma blob_circ: "circularity_of blob_contour = pi * (4000 / 14884)"
  by (simp add: circularity_of_def blob_contour_def)

lemma blob_circ_bounds: "0.8442 < circularity_of blob_contour" "circularity_of blob_contour < 0.8443"
  unfolding blob_circ using pi_lower pi_upper by simp_all

lemma blob_shape_score:
  "aspect_score (21 / 20) + circularity_score (circularity_of blob_contour)
     + solidity_score (50 / 51) = 21 / 50"
  using blob_circ_bounds
  by (simp add: aspect_score_def circularity_score_def solidity_score_def
      talisay_aspect_range_def talisay_circularity_range_def talisay_solidity_range_def Let_def)

lemma blob_shape:
  "check_talisay_shape (largest blob_cv) =
     \<lparr>shape_passes = False, shape_score = 0.42, aspect_ratio = Some 1.05,
      circularity = Some 0.844, solidity = Some 0.98\<rparr>"
proof -
  have c: "py_round (circularity_of blob_contour) 3 = 0.844"
    using py_round_eq[of 844 "circularity_of blob_contour" 3] blob_circ_bounds by simp
  have r: "py_round (21 / 50) 3 = 0.42" "py_round (21 / 20) 3 = 1.05"
    "py_round (50 / 51) 3 = 0.98"
    by (simp_all add: py_round_def round_half_even_def Let_def)
  have "check_talisay_shape (Some blob_contour) =
     \<lparr>shape_passes = (21 / 50 \<ge> (0.50::real) \<and> 21 / 20 \<ge> (1.1::real) \<and> 21 / 20 \<le> (3.0::real)
                       \<and> circularity_of blob_contour \<le> 0.90),
      shape_score = py_round (21 / 50) 3, aspect_ratio = Some (py_round (21 / 20) 3),
      circularity = Some (py_round (circularity_of blob_contour) 3),
      solidity = Some (py_round (50 / 51) 3)\<rparr>"
    by (rule check_talisay_shape_eval)
       (simp_all add: blob_shape_score shape_aspect_def, simp_all add: blob_contour_def)
  then show ?thesis
    by (simp add: blob_cv_def c r)
qed

lemma held_masked: "masked (held_image g) (held_mask g) = replicate g (60, 200, 200)"
  unfolding held_image_def held_mask_def masked_three_blocks by (simp add: pixel_defs)

lemma held_not_person:
  assumes "800 \<le> g"
  shows "\<not> is_person (check_person (held_image g) 0)"
  using assms unfolding check_person_is_person held_image_def hand_green_white_coverages by simp

lemma held_area: "fruit_area (held_mask g) = g"
  by (simp add: fruit_area_def held_mask_def)

lemma held_not_capsicum:
  assumes "500 \<le> g"
  shows "\<not> is_capsicum (check_capsicum (held_image g) (held_mask g) blob_cv)"
proof -
  have m: "np_mean (map sat (replicate g (60, 200, 200))) = 200"
    using assms by (simp add: np_mean_def sum_list_replicate sat_def)
  have f: "c_area blob_contour = 1000" "c_perimeter blob_contour = 122"
    "n_points blob_contour = 40" "ellipse_minor blob_contour = 35"
    "ellipse_major blob_contour = 36.75"
    by (simp_all add: blob_contour_def)
  have w: "width (held_image g) = 100" "height (held_image g) = 100" by (simp_all add: held_image_def)
  show ?thesis
    using assms blob_circ_bounds
    by (simp add: check_capsicum_def held_masked bump_def m f w MAX_CAPSICUM_SCORE_def Let_def
        blob_cv_def fruit_cv_def band_defs)
qed

lemma held_not_non_talisay:
  "\<not> is_non_talisay (check_non_talisay_colours (held_image g) (held_mask g))"
  by (simp add: check_non_talisay_colours_def held_masked max_reject_def reject_colours_def
      in_range_def Let_def)

lemma held_colour:
  assumes "500 \<le> g"
  shows "check_talisay_colour (held_image g) (held_mask g) =
     \<lparr>colour_passes = True, colour_score = 1, colour_coverage = 1,
      dominant_colour = Some ''green'', dominant_coverage = Some 1\<rparr>"
  using assms
  by (simp add: check_talisay_colour_def check_talisay_colour_px_def held_masked band_defs
      band_cov_def talisay_any_def dominant_cov_def
      MIN_TALISAY_COLOUR_COV_def dominant_of_def Let_def py_round_def)

lemma held_texture:
  assumes "500 \<le> g"
  shows "check_talisay_texture (held_image g) (held_mask g) blob_cv =
     \<lparr>texture_passes = True, texture_score = 0.65\<rparr>"
  using assms
  by (simp add: check_talisay_texture_def held_masked blob_cv_def fruit_cv_def band_defs Let_def
      py_round_def)

lemma held_reaches:
  assumes "800 \<le> g"
  shows "reaches_composite (held_image g) (held_mask g) blob_cv"
proof -
  have b: "\<not> is_blank (check_blank_image (held_image g) (blank_in blob_cv))"
    using hand_green_white_not_blank[of "7000 - g" g] by (simp add: held_image_def blob_cv_def)
  have p: "\<not> is_person (check_person (held_image g) (faces blob_cv))"
    using held_not_person[OF assms(1)] by (simp add: blob_cv_def fruit_cv_def)
  have g5: "500 \<le> g" using assms(1) by simp
  show ?thesis
    using b p assms held_not_capsicum[OF g5] held_not_non_talisay[of g]
    by (simp add: reaches_composite_def reaches_shape_gate_def held_area shape_gate_def blob_shape)
qed

lemma held_coverages:
  "coverage combined_skin (held_image g) = 0.30"
  "coverage strong_rescue (held_image g) = real g / 10000"
  "green_sat_vals (held_image g) = replicate g 200"
  unfolding held_image_def by (rule hand_green_white_coverages hand_green_white_sat)+

lemma held_positive_count:
  assumes "800 \<le> g"
  shows "positive_count (check_talisay_colour (held_image g) (held_mask g))
           (check_talisay_shape (largest blob_cv))
           (check_talisay_texture (held_image g) (held_mask g) blob_cv) = 2"
    and "composite (check_talisay_colour (held_image g) (held_mask g))
           (check_talisay_shape (largest blob_cv))
           (check_talisay_texture (held_image g) (held_mask g) blob_cv) = 0.7385"
  using assms by (simp_all add: positive_count_def composite_def held_colour held_texture blob_shape)

lemma skin_veto_iff:
  assumes "\<not> is_person (check_person img n)"
  shows "skin_veto img (check_person img n) pc \<longleftrightarrow>
     coverage combined_skin img > 0.25 \<and> pc < 3
     \<and> (coverage combined_skin img > 0.45
        \<or> (coverage strong_rescue img > 0.10 \<and> length (green_sat_vals img) > 100
            \<and> np_median (green_sat_vals img) > 140))"
  using assms check_person_not_person[OF assms]
  by (auto simp add: skin_veto_def Let_def MAX_SKIN_COVERAGE_def MIN_POSITIVE_LAYERS_def)

section \<open>The colour layer: score formula and monotonicity\<close>

lemma band_cov_blocks:
  "band_cov P (replicate a x @ replicate b y)
     = real ((if P x then a else 0) + (if P y then b else 0)) / real (a + b)"
  by (simp add: band_cov_def)











section \<open>Clamping and the measured samples\<close>

lemma np_clip_bounds: "lo \<le> hi \<Longrightarrow> lo \<le> np_clip x lo hi \<and> np_clip x lo hi \<le> hi"
  by (simp add: np_clip_def)

lemma np_clip_above: "lo \<le> hi \<Longrightarrow> hi \<le> x \<Longrightarrow> np_clip x lo hi = hi"
  by (simp add: np_clip_def)

lemma np_clip_below: "lo \<le> hi \<Longrightarrow> x \<le> lo \<Longrightarrow> np_clip x lo hi = lo"
  by (simp add: np_clip_def)

lemma np_clip_inside: "lo \<le> x \<Longrightarrow> x \<le> hi \<Longrightarrow> np_clip x lo hi = x"
  by (simp add: np_clip_def)

lemma py_round_clip:
  assumes "lo \<le> hi" "lo * 10 ^ n = of_int k" "hi * 10 ^ n = of_int j"
  shows "lo \<le> py_round (np_clip x lo hi) n \<and> py_round (np_clip x lo hi) n \<le> hi"
  using py_round_lower[OF assms(2), of "np_clip x lo hi"]
    py_round_upper[OF assms(3), of "np_clip x lo hi"] np_clip_bounds[OF assms(1), of x]
  by simp

lemma measure_fruit_Some:
  assumes "measure_fruit (Some f) ppcm = Some d"
  shows "contour_points f \<ge> 5"
    and "length_cm d = py_round (np_clip (raw_length f ppcm) 3 8) 2"
    and "width_cm d = py_round (np_clip (raw_width f ppcm) 1.5 6) 2"
    and "area_cm2 d = py_round (pi * (np_clip (raw_length f ppcm) 3 8 / 2)
                                   * (np_clip (raw_width f ppcm) 1.5 6 / 2)) 2"
    and "estimated_weight_g d =
           py_round (np_clip ((4 / 3) * pi * (np_clip (raw_length f ppcm) 3 8 / 2)
                      * (np_clip (raw_width f ppcm) 1.5 6 / 2)
                      * (np_clip (raw_width f ppcm) 1.5 6 / 2 * 0.8) * 0.85) 15 60) 1"
    and "estimated_kernel_mass_g d =
           py_round (np_clip (0.1 + (np_clip (raw_length f ppcm) 3 8
                      * np_clip (raw_width f ppcm) 1.5 6 / 35) * 0.6) 0.1 0.9) 3"
proof -
  show "contour_points f \<ge> 5" using assms by (simp add: measure_fruit_def split: if_splits)
  then have "d = \<lparr>length_cm = py_round (np_clip (raw_length f ppcm) 3 8) 2,
     width_cm = py_round (np_clip (raw_width f ppcm) 1.5 6) 2,
     area_cm2 = py_round (pi * (np_clip (raw_length f ppcm) 3 8 / 2)
                                   * (np_clip (raw_width f ppcm) 1.5 6 / 2)) 2,
     estimated_weight_g = py_round (np_clip ((4 / 3) * pi * (np_clip (raw_length f ppcm) 3 8 / 2)
                      * (np_clip (raw_width f ppcm) 1.5 6 / 2)
                      * (np_clip (raw_width f ppcm) 1.5 6 / 2 * 0.8) * 0.85) 15 60) 1,
     estimated_kernel_mass_g = py_round (np_clip (0.1 + (np_clip (raw_length f ppcm) 3 8
                      * np_clip (raw_width f ppcm) 1.5 6 / 35) * 0.6) 0.1 0.9) 3\<rparr>"
    using assms unfolding measure_fruit_def raw_length_def raw_width_def Let_def
    by simp
  then show "length_cm d = py_round (np_clip (raw_length f ppcm) 3 8) 2"
    and "width_cm d = py_round (np_clip (raw_width f ppcm) 1.5 6) 2"
    and "area_cm2 d = py_round (pi * (np_clip (raw_length f ppcm) 3 8 / 2)
                                   * (np_clip (raw_width f ppcm) 1.5 6 / 2)) 2"
    and "estimated_weight_g d =
           py_round (np_clip ((4 / 3) * pi * (np_clip (raw_length f ppcm) 3 8 / 2)
                      * (np_clip (raw_width f ppcm) 1.5 6 / 2)
                      * (np_clip (raw_width f ppcm) 1.5 6 / 2 * 0.8) * 0.85) 15 60) 1"
    and "estimated_kernel_mass_g d =
           py_round (np_clip (0.1 + (np_clip (raw_length f ppcm) 3 8
                      * np_clip (raw_width f ppcm) 1.5 6 / 35) * 0.6) 0.1 0.9) 3"
    by simp_all
qed

lemma three_pi_rounded: "py_round (3 * pi) 2 = 9.42"
  using py_round_eq[of 942 "3 * pi" 2] pi_lower pi_upper by simp

lemma almond_raw: "raw_length almond_fit 100 = 4" "raw_width almond_fit 100 = 3"
  by (simp_all add: raw_length_def raw_width_def major_axis_px_def minor_axis_px_def almond_fit_def)

lemma sliver_raw: "raw_length sliver_fit 100 = 12" "raw_width sliver_fit 100 = 1 / 2"
  by (simp_all add: raw_length_def raw_width_def major_axis_px_def minor_axis_px_def sliver_fit_def)

lemma small_roundings:
  "py_round 4 2 = 4" "py_round 3 2 = 3" "py_round 8 2 = 8" "py_round (3 / 2) 2 = 3 / 2"
  "py_round 15 (Suc 0) = 15" "py_round (107 / 350) 3 = 0.306"
  by (simp_all add: py_round_def round_half_even_def Let_def)

lemma almond_measure:
  "measure_fruit (Some almond_fit) 100 =
     Some \<lparr>length_cm = 4, width_cm = 3, area_cm2 = 9.42, estimated_weight_g = 15,
           estimated_kernel_mass_g = 0.306\<rparr>"
proof -
  have w: "np_clip (102 * pi / 25) 15 60 = 15"
    using pi_upper by (intro np_clip_below) simp_all
  have f: "major_axis_px almond_fit = 400" "minor_axis_px almond_fit = 300"
    "contour_points almond_fit = 40"
    by (simp_all add: major_axis_px_def minor_axis_px_def almond_fit_def)
  have c: "np_clip 4 3 8 = 4" "np_clip 3 (3 / 2) 6 = 3" "np_clip (107 / 350) (1 / 10) (9 / 10) = 107 / 350"
    by (simp_all add: np_clip_def)
  show ?thesis
    by (simp add: measure_fruit_def f c Let_def w small_roundings three_pi_rounded)
qed

lemma sliver_measure:
  "measure_fruit (Some sliver_fit) 100 =
     Some \<lparr>length_cm = 8, width_cm = 1.5, area_cm2 = 9.42, estimated_weight_g = 15,
           estimated_kernel_mass_g = 0.306\<rparr>"
proof -
  have w: "np_clip (51 * pi / 25) 15 60 = 15"
    using pi_upper by (intro np_clip_below) simp_all
  have f: "major_axis_px sliver_fit = 1200" "minor_axis_px sliver_fit = 50"
    "contour_points sliver_fit = 40"
    by (simp_all add: major_axis_px_def minor_axis_px_def sliver_fit_def)
  have c: "np_clip 12 3 8 = 8" "np_clip (1 / 2) (3 / 2) 6 = 3 / 2"
    "np_clip (107 / 350) (1 / 10) (9 / 10) = 107 / 350"
    by (simp_all add: np_clip_def)
  show ?thesis
    by (simp add: measure_fruit_def f c Let_def w small_roundings three_pi_rounded)
qed

section \<open>Coin detection on the sample disc, and its two outcomes\<close>

lemma py_int_numeral [simp]: "py_int (numeral n) = numeral n"
  by (simp add: py_int_def)

lemma coin_stats_samples:
  "coin_stats (150, 250, 25) =
     \<lparr>inner_count = 1875, mean_hue = 20, mean_sat = 30, mean_val = 180, std_gray = 20,
      inner_mean = 170, sector_hits = 34, ring_area = 600, edge_on_ring = 150,
      outer_count = 1875, outer_mean = 240\<rparr>"
  "coin_stats (150, 250, 40) =
     \<lparr>inner_count = 4800, mean_hue = 20, mean_sat = 30, mean_val = 180, std_gray = 20,
      inner_mean = 170, sector_hits = 34, ring_area = 1440, edge_on_ring = 360,
      outer_count = 4800, outer_mean = 240\<rparr>"
  "coin_stats (520, 500, 50) =
     \<lparr>inner_count = 7500, mean_hue = 20, mean_sat = 30, mean_val = 180, std_gray = 20,
      inner_mean = 170, sector_hits = 34, ring_area = 2400, edge_on_ring = 600,
      outer_count = 7500, outer_mean = 240\<rparr>"
  by (simp_all add: coin_stats_def)

lemma coin_score_left: "coin_score 500 (150, 250, 25) (coin_stats (150, 250, 25)) = 529 / 550"
  by (simp add: coin_score_def coin_stats_samples rim_continuity_def pos_x_def size_ratio_def
      Let_def)

lemma score_circle_left:
  "score_circle 500 500 coin_stats (150, 250, 25) = Some ((150, 250, 25), 529 / 550)"
  by (simp add: score_circle_def touches_border_def pos_x_def size_ratio_def hard_rejected_def
      coin_score_left)
     (simp add: coin_stats_samples)

lemma select_best_single: "select_best [x] = Some x"
  by (simp add: select_best_def)

lemma scored_single:
  "scored_circles_of w h stats [c] = (case score_circle w h stats (to_icircle c) of
      None \<Rightarrow> [] | Some sc \<Rightarrow> [sc])"
  by (simp add: scored_circles_of_def dedup_def keep_circle_def List.map_filter_def
      split: option.splits)

lemma single_pass_left:
  "detect_coin_single_pass 500 500 coin_stats [(150, 250, 25)]
     = (Some (150, 250, 25), 529 / 550)"
  by (simp add: detect_coin_single_pass_def scored_single to_icircle_def score_circle_left
      select_best_single)

lemma thorough_left:
  "detect_coin_reference 500 500 coin_stats [(150, 250, 25)] =
     \<lparr>detected = True, pixels_per_cm = Some 20, coin_center = Some (150, 250),
      coin_radius = Some 25, coin_diameter_px = Some 50, coin_type = Some ''peso_5'',
      coin_name = Some ''P5 Coin (25mm)'', coin_diameter_cm = Some 2.5,
      detection_score = Some (529 / 550), coin_confidence = Some 0.95,
      detection_method = Some ''edge_ring''\<rparr>"
  by (simp add: detect_coin_reference_def work_width_def work_height_def detect_scale_def
      single_pass_left Let_def)

lemma peso_1_info: "reference_info_of ''peso_1'' = coin 2.0 ''P1 Coin (New Silver)''"
  by (simp add: reference_info_of_def REFERENCE_OBJECTS_def)

lemma fast_left:
  "fast_coin_search (reference_info_of ''peso_1'') 500 500 240 (Some [(150, 250, 25)])
       coin_fast_stats None =
     \<lparr>detected = True, pixels_per_cm = Some 25, coin_center = Some (150, 250),
      coin_radius = Some 25, coin_diameter_px = Some 50, coin_type = None,
      coin_name = Some ''P1 Coin (New Silver)'', coin_diameter_cm = Some 2.0,
      detection_score = None, coin_confidence = Some 0.90,
      detection_method = Some ''size_aware_circle''\<rparr>"
  by (simp add: fast_coin_search_def fast_scale_def fruit_rect_def List.map_filter_def
      fast_candidate_of_def fast_score_def coin_fast_stats_def Let_def peso_1_info coin_def)

lemma not_detected_False [simp]: "\<not> detected not_detected"
  by (simp add: not_detected_def)



lemma thorough_scale_law:
  assumes "detected (detect_coin_reference w h stats cs)"
  shows "\<exists>D. coin_diameter_px (detect_coin_reference w h stats cs) = Some D
             \<and> pixels_per_cm (detect_coin_reference w h stats cs) = Some (real_of_int D / 2.5)"
  using assms
  by (auto simp add: detect_coin_reference_def Let_def split: prod.splits option.splits if_splits)







section \<open>Survivors of the thorough search and the selection loop\<close>















section \<open>The composite decision\<close>



section \<open>The shape gate\<close>




section \<open>The person layer\<close>

text \<open>
  Claim C3 says that, above 25 per cent skin, the layer lets the image through exactly when
  green and yellow coverage is at least 8 per cent or the coverage of brown pixels outside
  the skin mask is at least 20 per cent with skin below 45 per cent. The source compares
  the coverage of \<open>total_rescue\<close>, the union of the green, yellow and non-skin brown masks,
  with 20 per cent: 7 per cent green and 14 per cent brown pass, although neither
  threshold of the claim is met.
\<close>

theorem brown_rescue_counterexample:
  "coverage combined_skin hand_image > 0.25
   \<and> \<not> is_person (check_person hand_image 0)
   \<and> \<not> (coverage strong_rescue hand_image \<ge> 0.08
          \<or> (coverage talisay_brown_nonskin hand_image \<ge> 0.20
              \<and> coverage combined_skin hand_image < 0.45))"
  by (simp add: check_person_is_person hand_coverages)

text \<open>
  Claim C3, amended. If a face is detected and green plus yellow Talisay coverage is below
  5 per cent, the layer reports a person. Otherwise, if skin coverage exceeds 25 per cent,
  the layer does not report a person exactly when green plus yellow coverage is at least
  8 per cent, or the coverage of the union of the green, yellow and non-skin brown masks
  is at least 20 per cent while skin coverage is below 45 per cent. Otherwise, with skin
  coverage at most 25 per cent, it does not report a person.
\<close>

theorem person_layer:
  "(let skin = coverage combined_skin img;
        strong = coverage strong_rescue img;
        total = coverage total_rescue img;
        face_rule = (n_faces > 0 \<and> strong < 0.05);
        r = check_person img n_faces
    in (face_rule \<longrightarrow> is_person r)
       \<and> (\<not> face_rule \<and> skin > 0.25 \<longrightarrow>
             (\<not> is_person r \<longleftrightarrow> strong \<ge> 0.08 \<or> (total \<ge> 0.20 \<and> skin < 0.45)))
       \<and> (\<not> face_rule \<and> skin \<le> 0.25 \<longrightarrow> \<not> is_person r))"
  unfolding Let_def check_person_is_person by auto

theorem person_layer_witness:
  "\<not> (0 < (0::nat) \<and> coverage strong_rescue hand_image < 0.05)
   \<and> coverage combined_skin hand_image > 0.25
   \<and> coverage total_rescue hand_image \<ge> 0.20 \<and> coverage combined_skin hand_image < 0.45
   \<and> \<not> is_person (check_person hand_image 0)"
  using person_layer[of hand_image 0] by (simp add: Let_def hand_coverages)

section \<open>The skin-sensitivity veto\<close>

text \<open>
  Claim C4 says that a rescued image with fewer than three passing layers is rejected when
  the green rescue evidence has median saturation above 140, in particular an image with
  30 per cent skin and 10 per cent green at saturation above 140. The source looks at the
  saturation only when the green plus yellow coverage is strictly above 0.10 (and more
  than 100 pixels are green): at exactly 10 per cent green of saturation 200, with the
  colour and texture layers passing, the image is accepted.
\<close>

theorem exact_ten_percent_counterexample:
  "coverage combined_skin (held_image 1000) = 0.30
   \<and> coverage strong_rescue (held_image 1000) = 0.10
   \<and> np_median (green_sat_vals (held_image 1000)) = 200
   \<and> positive_count (check_talisay_colour (held_image 1000) (held_mask 1000))
        (check_talisay_shape (largest blob_cv))
        (check_talisay_texture (held_image 1000) (held_mask 1000) blob_cv) = 2
   \<and> \<not> is_person (check_person (held_image 1000) (faces blob_cv))
   \<and> accepted (verify (held_image 1000) (held_mask 1000) blob_cv)
   \<and> verdict (verify (held_image 1000) (held_mask 1000) blob_cv) = ACCEPT"
proof -
  have g: "(800::nat) \<le> 1000" by simp
  have r: "reaches_composite (held_image 1000) (held_mask 1000) blob_cv" by (rule held_reaches[OF g])
  then have p: "\<not> is_person (check_person (held_image 1000) (faces blob_cv))"
    by (simp add: reaches_composite_def reaches_shape_gate_def)
  have v: "\<not> skin_veto (held_image 1000) (check_person (held_image 1000) (faces blob_cv)) 2"
    unfolding skin_veto_iff[OF p] by (simp add: held_coverages)
  have a: "composite_accepted (held_image 1000) (check_person (held_image 1000) (faces blob_cv))
      (check_talisay_colour (held_image 1000) (held_mask 1000))
      (check_talisay_shape (largest blob_cv))
      (check_talisay_texture (held_image 1000) (held_mask 1000) blob_cv)"
    unfolding composite_accepted_iff held_positive_count[OF g] using v by simp
  show ?thesis
    using p a verify_composite_accepted[OF r] verify_composite_verdict[OF r]
    by (simp add: held_coverages held_positive_count[OF g] np_median_replicate Let_def)
qed

text \<open>
  Claim C4, amended. An image whose green plus yellow Talisay coverage is at least 8 per
  cent is never reported as a person, whatever its skin coverage and the saturation of
  its green pixels. Whenever an image with skin coverage above 25 per cent reaches the
  composite decision and fewer than 3 positive layers passed, \<open>verify\<close> rejects it if skin
  coverage exceeds 45 per cent, and also rejects it if green plus yellow coverage is
  strictly above 10 per cent, more than 100 pixels of the image lie in the Talisay green
  band and their median saturation is above 140.
\<close>

theorem skin_sensitivity:
  "(coverage strong_rescue img \<ge> 0.08 \<longrightarrow> \<not> is_person (check_person img n_faces))
   \<and> (reaches_composite img msk m
       \<and> coverage combined_skin img > 0.25
       \<and> positive_count (check_talisay_colour img msk) (check_talisay_shape (largest m))
            (check_talisay_texture img msk m) < 3
       \<longrightarrow> (coverage combined_skin img > 0.45 \<longrightarrow> \<not> accepted (verify img msk m))
           \<and> (coverage strong_rescue img > 0.10 \<and> length (green_sat_vals img) > 100
                \<and> np_median (green_sat_vals img) > 140 \<longrightarrow> \<not> accepted (verify img msk m))
           \<and> (\<not> accepted (verify img msk m) \<longrightarrow> verdict (verify img msk m) \<noteq> ACCEPT))"
proof -
  have 1: "coverage strong_rescue img \<ge> 0.08 \<longrightarrow> \<not> is_person (check_person img n_faces)"
    unfolding check_person_is_person by auto
  have 2: "\<not> accepted (verify img msk m) \<longrightarrow> verdict (verify img msk m) \<noteq> ACCEPT"
    using verify_accepted_iff by simp
  have 3: "\<not> accepted (verify img msk m)"
    if r: "reaches_composite img msk m" and s: "coverage combined_skin img > 0.25"
      and pc: "positive_count (check_talisay_colour img msk) (check_talisay_shape (largest m))
            (check_talisay_texture img msk m) < 3"
      and e: "coverage combined_skin img > 0.45
              \<or> (coverage strong_rescue img > 0.10 \<and> length (green_sat_vals img) > 100
                  \<and> np_median (green_sat_vals img) > 140)"
  proof -
    have p: "\<not> is_person (check_person img (faces m))"
      using r by (simp add: reaches_composite_def reaches_shape_gate_def)
    have "skin_veto img (check_person img (faces m))
            (positive_count (check_talisay_colour img msk) (check_talisay_shape (largest m))
               (check_talisay_texture img msk m))"
      unfolding skin_veto_iff[OF p] using s pc e by simp
    then show ?thesis
      unfolding verify_composite_accepted[OF r] composite_accepted_iff by simp
  qed
  show ?thesis using 1 2 3 by blast
qed

theorem skin_sensitivity_witness:
  "coverage strong_rescue (held_image 1100) \<ge> 0.08
   \<and> reaches_composite (held_image 1100) (held_mask 1100) blob_cv
   \<and> coverage combined_skin (held_image 1100) > 0.25
   \<and> positive_count (check_talisay_colour (held_image 1100) (held_mask 1100))
        (check_talisay_shape (largest blob_cv))
        (check_talisay_texture (held_image 1100) (held_mask 1100) blob_cv) < 3
   \<and> coverage strong_rescue (held_image 1100) > 0.10
   \<and> length (green_sat_vals (held_image 1100)) > 100
   \<and> np_median (green_sat_vals (held_image 1100)) > 140
   \<and> \<not> is_person (check_person (held_image 1100) 0)
   \<and> \<not> accepted (verify (held_image 1100) (held_mask 1100) blob_cv)
   \<and> verdict (verify (held_image 1100) (held_mask 1100) blob_cv) \<noteq> ACCEPT"
proof -
  have g: "(800::nat) \<le> 1100" by simp
  show ?thesis
    using skin_sensitivity[of "held_image 1100" 0 "held_mask 1100" blob_cv]
      held_reaches[OF g] held_positive_count[OF g]
    by (simp add: held_coverages np_median_replicate)
qed

section \<open>The thorough coin search\<close>




section \<open>The calibration scale\<close>

text \<open>
  Claim C6: whenever coin detection accepts a circle of pixel diameter D, the reported
  \<open>pixels_per_cm\<close> is within 5 per cent of D divided by the configured coin's diameter,
  for both searches and every configured coin. The fast search divides by the configured
  diameter (\<open>fast_coin_search_cases\<close>); the thorough search always divides by 2.5
  (\<open>thorough_scale_law\<close>). For an estimator configured with \<open>peso_1\<close> (2.0 cm) and an
  accepted circle of diameter 50 pixels the thorough search reports 20 pixels per
  centimetre where D / C is 25, which the fast search reports for the same circle.
\<close>

theorem thorough_ignores_configured_coin:
  "diameter (reference_info_of ''peso_1'') = Some 2.0
   \<and> detected (detect_coin_reference 500 500 coin_stats [(150, 250, 25)])
   \<and> coin_diameter_px (detect_coin_reference 500 500 coin_stats [(150, 250, 25)]) = Some 50
   \<and> pixels_per_cm (detect_coin_reference 500 500 coin_stats [(150, 250, 25)]) = Some 20
   \<and> \<bar>20 - 50 / 2.0\<bar> > 0.05 * (50 / 2.0 :: real)
   \<and> pixels_per_cm (fast_coin_search (reference_info_of ''peso_1'') 500 500 240
         (Some [(150, 250, 25)]) coin_fast_stats None) = Some (50 / 2.0)"
proof -
  have "diameter (reference_info_of ''peso_1'') = Some 2.0"
    by (simp add: peso_1_info coin_def)
  then show ?thesis by (simp add: thorough_left fast_left)
qed


section \<open>Calibrated measurement\<close>

text \<open>
  Claim C7 says that the reported \<open>area_cm2\<close> equals pi times half the length times half
  the width. The source reports every field rounded: for a fruit of 4 by 3 centimetres
  the area is 9.42, which is not 3 pi.
\<close>

theorem area_rounding_counterexample:
  "map_option length_cm (measure_fruit (Some almond_fit) 100) = Some 4
   \<and> map_option width_cm (measure_fruit (Some almond_fit) 100) = Some 3
   \<and> map_option area_cm2 (measure_fruit (Some almond_fit) 100) = Some 9.42
   \<and> (9.42 :: real) \<noteq> pi * (4 / 2) * (3 / 2)"
  using pi_lower by (simp add: almond_measure)

text \<open>
  Claim C7, amended. For every calibrated measurement produced by \<open>_measure_fruit\<close>, the
  reported length lies in [3.0, 8.0], the width in [1.5, 6.0], the weight in [15, 60] and
  the kernel mass in [0.1, 0.9]; when the raw ellipse-derived length or width falls
  outside its range, the output equals the nearest clamp boundary, never the raw value;
  and \<open>area_cm2\<close> is pi times half the clamped length times half the clamped width,
  rounded to two decimals, so within 0.005 of that product.
\<close>

theorem measured_dimensions:
  assumes "measure_fruit (Some f) ppcm = Some d"
  shows "3.0 \<le> length_cm d \<and> length_cm d \<le> 8.0
       \<and> 1.5 \<le> width_cm d \<and> width_cm d \<le> 6.0
       \<and> 15 \<le> estimated_weight_g d \<and> estimated_weight_g d \<le> 60
       \<and> 0.1 \<le> estimated_kernel_mass_g d \<and> estimated_kernel_mass_g d \<le> 0.9
       \<and> (raw_length f ppcm > 8.0 \<longrightarrow> length_cm d = 8.0)
       \<and> (raw_length f ppcm < 3.0 \<longrightarrow> length_cm d = 3.0)
       \<and> (raw_width f ppcm > 6.0 \<longrightarrow> width_cm d = 6.0)
       \<and> (raw_width f ppcm < 1.5 \<longrightarrow> width_cm d = 1.5)
       \<and> area_cm2 d = py_round (pi * (np_clip (raw_length f ppcm) 3.0 8.0 / 2)
                                    * (np_clip (raw_width f ppcm) 1.5 6.0 / 2)) 2
       \<and> \<bar>area_cm2 d - pi * (np_clip (raw_length f ppcm) 3.0 8.0 / 2)
                            * (np_clip (raw_width f ppcm) 1.5 6.0 / 2)\<bar> \<le> 0.005"
proof -
  note m = measure_fruit_Some[OF assms]
  have l: "3 \<le> length_cm d \<and> length_cm d \<le> 8"
    unfolding m(2) by (rule py_round_clip[where k = 300 and j = 800]) simp_all
  have w: "1.5 \<le> width_cm d \<and> width_cm d \<le> 6"
    unfolding m(3) by (rule py_round_clip[where k = 150 and j = 600]) simp_all
  have g: "15 \<le> estimated_weight_g d \<and> estimated_weight_g d \<le> 60"
    unfolding m(5) by (rule py_round_clip[where k = 150 and j = 600]) simp_all
  have k: "0.1 \<le> estimated_kernel_mass_g d \<and> estimated_kernel_mass_g d \<le> 0.9"
    unfolding m(6) by (rule py_round_clip[where k = 100 and j = 900]) simp_all
  have c1: "raw_length f ppcm > 8 \<longrightarrow> length_cm d = 8"
    unfolding m(2) by (simp add: np_clip_def py_round_def)
  have c2: "raw_length f ppcm < 3 \<longrightarrow> length_cm d = 3"
    unfolding m(2) by (simp add: np_clip_def py_round_def)
  have c3: "raw_width f ppcm > 6 \<longrightarrow> width_cm d = 6"
    unfolding m(3) by (simp add: np_clip_def py_round_def)
  have c4: "raw_width f ppcm < 1.5 \<longrightarrow> width_cm d = 1.5"
    unfolding m(3) by (auto simp add: np_clip_def small_roundings)
  have a: "\<bar>area_cm2 d - pi * (np_clip (raw_length f ppcm) 3 8 / 2)
                            * (np_clip (raw_width f ppcm) 1.5 6 / 2)\<bar> \<le> 0.005"
    unfolding m(4)
    using py_round_close[of "pi * (np_clip (raw_length f ppcm) 3 8 / 2)
                                * (np_clip (raw_width f ppcm) 1.5 6 / 2)" 2]
    by simp
  show ?thesis using l w g k c1 c2 c3 c4 a m(4) by simp
qed

theorem measured_dimensions_witness:
  "measure_fruit (Some sliver_fit) 100 =
     Some \<lparr>length_cm = 8, width_cm = 1.5, area_cm2 = 9.42, estimated_weight_g = 15,
           estimated_kernel_mass_g = 0.306\<rparr>
   \<and> raw_length sliver_fit 100 > 8.0 \<and> raw_width sliver_fit 100 < 1.5
   \<and> \<bar>9.42 - pi * (np_clip (raw_length sliver_fit 100) 3.0 8.0 / 2)
                  * (np_clip (raw_width sliver_fit 100) 1.5 6.0 / 2)\<bar> \<le> (0.005 :: real)"
  using measured_dimensions[OF sliver_measure] sliver_measure
  by (simp add: sliver_raw)

section \<open>No coin found\<close>




section \<open>The verdict record\<close>

text \<open>
  Claim C9 says that the verdict kind is drawn from a closed enumeration of exactly 13
  kinds. The enumeration \<open>GuardVerdict\<close> of the source has 10 members.
\<close>

theorem verdict_kinds_counterexample:
  "card (UNIV :: GuardVerdict set) = 10 \<and> card (UNIV :: GuardVerdict set) \<noteq> 13"
  by (simp add: GuardVerdict_card)

text \<open>
  Claim C9, amended. Every verdict returned by \<open>verify\<close> has its kind in the enumeration
  \<open>GuardVerdict\<close>, which has exactly 10 members; its \<open>accepted\<close> flag is true exactly when
  the kind is \<open>ACCEPT\<close>; its score lies in the interval from 0 to 1.
\<close>

theorem verdict_well_formed:
  "card (UNIV :: GuardVerdict set) = 10
   \<and> (accepted (verify img msk m) \<longleftrightarrow> verdict (verify img msk m) = ACCEPT)
   \<and> 0 \<le> score (verify img msk m) \<and> score (verify img msk m) \<le> 1"
  using GuardVerdict_card verify_accepted_iff[of img msk m] verify_score_unit[of img msk m]
  by simp

theorem verdict_well_formed_witness:
  "card (UNIV :: GuardVerdict set) = 10
   \<and> (accepted (verify fruit_image fruit_mask fruit_cv)
        \<longleftrightarrow> verdict (verify fruit_image fruit_mask fruit_cv) = ACCEPT)
   \<and> 0 \<le> score (verify fruit_image fruit_mask fruit_cv)
   \<and> score (verify fruit_image fruit_mask fruit_cv) \<le> 1"
  using verdict_well_formed[of fruit_image fruit_mask fruit_cv] by simp

section \<open>The colour layer\<close>




end
